theory Spec2Isabelle
  imports Main "HOL-Library.Word"
begin

unbundle bit_operations_syntax

section \<open>Data model of the BBAPI driver (api.c)\<close>

type_synonym u8 = "8 word"
type_synonym u32 = "32 word"
type_synonym u64 = "64 word"

text \<open>Pointers are addresses; \<open>0\<close> is \<open>NULL\<close>.\<close>

type_synonym addr = nat

text \<open>
  \<open>struct bbapi_struct\<close>: the request descriptor, with the fields api.c reads and
  writes. Their order is the one the initialiser \<open>{group, offset, NULL, 0, out, size}\<close>
  of unittest.cpp relies on, followed by the two fields the legacy command leaves out.
  Modelled from the spec: the width of the integer fields (32 bits), which api.c passes on
  as \<open>uint32_t\<close>; the header api.h that declares the struct is not among the sources.
\<close>

record bbapi_struct =
  nIndexGroup :: u32
  nIndexOffset :: u32
  pInBuffer :: addr
  nInBufferSize :: u32
  pOutBuffer :: addr
  nOutBufferSize :: u32
  pBytesReturned :: addr
  pMode :: addr

text \<open>
  The target the driver is compiled for (\<open>__i386__\<close> or \<open>__x86_64__\<close>); it selects the
  signature constant.
\<close>

datatype target = I386 | X86_64

text \<open>
  Constants of the headers api.h and TcBaDevDef.h, which api.c includes and uses by name
  only. They are parameters of the model. \<open>BBAPI_CMD_LEGACY\<close> is \<open>None\<close> when the
  macro is not defined (\<open>#ifdef BBAPI_CMD_LEGACY\<close>).
\<close>

record build_consts =
  BIOSAPIERR_OFFSET :: u32
  BIOSAPI_SRVNOTSUPP :: u32
  BIOSAPI_INVALIDSIZE :: u32
  BIOSAPI_INVALIDPARM :: u32
  BBAPI_CMD :: u32
  BBAPI_CMD_LEGACY :: "u32 option"
  BBIOSAPI_SIGNATURE_SEARCH_AREA :: nat
  build_target :: target

text \<open>Error numbers of the kernel (errno-base.h).\<close>

definition ENOMEM :: int where "ENOMEM = 12"
definition EACCES :: int where "EACCES = 13"
definition EFAULT :: int where "EFAULT = 14"
definition EINVAL :: int where "EINVAL = 22"

text \<open>
  \<open>struct bbapi_object\<close>, the type of the global \<open>g_bbapi\<close>: the two scratch arrays
  \<open>in\<close> and \<open>out\<close> (\<open>sizeof\<close> of an array is the length of the list), the pointer
  \<open>memory\<close> to the shadow copy and the pointer \<open>entry\<close> into it. \<open>memory_bytes\<close> is
  the content of the buffer \<open>memory\<close> points to. The mutex is not modelled: calls are
  sequential here, and every \<open>mutex_lock\<close> is followed by its \<open>mutex_unlock\<close>.
\<close>

record bbapi_object =
  in_buf :: "u8 list"
  out_buf :: "u8 list"
  memory :: addr
  memory_bytes :: "u8 list"
  entry :: addr

subsection \<open>The firmware\<close>

text \<open>
  The BIOS entry function is foreign code. A call hands it the seven arguments of
  \<open>bbapi_call\<close>; the buffers are given by their content (\<open>None\<close> for a \<open>NULL\<close>
  pointer). Its reply is the status it returns in \<open>eax\<close>, the bytes it stores at the
  start of the output buffer, and the value it stores through \<open>bytes_written\<close>
  (\<open>None\<close> when it stores nothing there). The firmware may keep state of its own, of
  an arbitrary type \<open>'f\<close>.
\<close>

record fw_args =
  fw_group :: u32
  fw_offset :: u32
  fw_in :: "u8 list option"
  fw_in_size :: u32
  fw_out :: "u8 list option"
  fw_out_size :: u32

record fw_reply =
  fr_status :: u32
  fr_out :: "u8 list"
  fr_written :: "u32 option"

type_synonym 'f firmware = "'f \<Rightarrow> fw_args \<Rightarrow> fw_reply \<times> 'f"

subsection \<open>The state around the driver\<close>

text \<open>
  User space is a byte memory in which an address may be unmapped (\<open>None\<close>), and the
  descriptors a caller has placed there, by address (the byte layout of
  \<open>struct bbapi_struct\<close> is not modelled). \<open>after_out\<close> is the kernel memory that
  follows the array \<open>out\<close>. \<open>fw_calls\<close> records every invocation of the firmware
  entry, in order.
\<close>

record 'f world =
  g_bbapi :: bbapi_object
  after_out :: "nat \<Rightarrow> u8"
  umem :: "addr \<Rightarrow> u8 option"
  udesc :: "addr \<Rightarrow> bbapi_struct option"
  fw_state :: 'f
  fw_calls :: "fw_args list"

section \<open>Copies between user and kernel space\<close>

text \<open>
  Storing the bytes \<open>bs\<close> at the start of the array \<open>buf\<close>. The array keeps its
  length: a store is cut off at its end (the firmware is taken to stay inside the buffer
  it is handed).
\<close>

definition overwrite :: "'a list \<Rightarrow> 'a list \<Rightarrow> 'a list" where
  "overwrite buf bs = take (length buf) bs @ drop (length bs) buf"

text \<open>The bytes readable from \<open>a\<close> on, up to the first unmapped address.\<close>

fun fetch :: "(addr \<Rightarrow> u8 option) \<Rightarrow> addr \<Rightarrow> nat \<Rightarrow> u8 list" where
  "fetch m a 0 = []"
| "fetch m a (Suc n) = (case m a of None \<Rightarrow> [] | Some b \<Rightarrow> b # fetch m (Suc a) n)"

text \<open>
  \<open>copy_from_user(to, from, n)\<close>: returns the number of bytes it could not copy, and
  the destination array: the bytes read, then zeros for the part that could not be read.
\<close>

definition copy_from_user :: "(addr \<Rightarrow> u8 option) \<Rightarrow> u8 list \<Rightarrow> addr \<Rightarrow> nat \<Rightarrow> nat \<times> u8 list" where
  "copy_from_user m to from n =
     (let got = fetch m from n
      in (n - length got, overwrite to (got @ replicate (n - length got) 0)))"

text \<open>
  \<open>copy_to_user(to, from, n)\<close>: stores bytes until the first unmapped address; returns
  the memory and the number of bytes not copied.
\<close>

fun copy_to_user :: "(addr \<Rightarrow> u8 option) \<Rightarrow> addr \<Rightarrow> u8 list \<Rightarrow> (addr \<Rightarrow> u8 option) \<times> nat" where
  "copy_to_user m a [] = (m, 0)"
| "copy_to_user m a (b # bs) =
     (case m a of None \<Rightarrow> (m, Suc (length bs))
      | Some _ \<Rightarrow> copy_to_user (m(a \<mapsto> b)) (Suc a) bs)"

text \<open>The four bytes of a 32-bit value, least significant first (x86).\<close>

definition le_bytes32 :: "u32 \<Rightarrow> u8 list" where
  "le_bytes32 v = [ucast v, ucast (drop_bit 8 v), ucast (drop_bit 16 v), ucast (drop_bit 24 v)]"

text \<open>
  \<open>put_user(x, ptr)\<close> for a 32-bit \<open>x\<close> (\<open>pBytesReturned\<close> is taken to point to
  a 32-bit value, as \<open>written\<close> is one): stores the four bytes when all four addresses
  are mapped, and nothing otherwise. The driver ignores its return value.
\<close>

definition put_user :: "(addr \<Rightarrow> u8 option) \<Rightarrow> u32 \<Rightarrow> addr \<Rightarrow> (addr \<Rightarrow> u8 option)" where
  "put_user m x p =
     (if length (fetch m p 4) = 4 then fst (copy_to_user m p (le_bytes32 x)) else m)"

text \<open>
  The \<open>n\<close> bytes of kernel memory from the start of the array \<open>out\<close> on: the array,
  then what follows it in memory (\<open>after\<close>).
\<close>

definition kernel_from_out :: "u8 list \<Rightarrow> (nat \<Rightarrow> u8) \<Rightarrow> nat \<Rightarrow> u8 list" where
  "kernel_from_out out after n = take n out @ map after [0..<n - length out]"

section \<open>CallBridge: bbapi_call\<close>

text \<open>
  \<open>bbapi_call(in, out, entry, cmd, bytes_written)\<close> passes group, offset, \<open>in\<close>, input
  size, \<open>out\<close>, output size and \<open>bytes_written\<close> to the entry function and returns its
  status. The model returns the whole reply; the caller applies the stores to its buffers.
\<close>

definition bbapi_call :: "'f firmware \<Rightarrow> 'f world \<Rightarrow> u8 list option \<Rightarrow> u8 list option \<Rightarrow> bbapi_struct
    \<Rightarrow> fw_reply \<times> 'f world" where
  "bbapi_call fw w inp outp cmd =
     (let a = \<lparr>fw_group = nIndexGroup cmd, fw_offset = nIndexOffset cmd, fw_in = inp,
               fw_in_size = nInBufferSize cmd, fw_out = outp, fw_out_size = nOutBufferSize cmd\<rparr>;
          (r, f') = fw (fw_state w) a
      in (r, w\<lparr>fw_state := f', fw_calls := fw_calls w @ [a]\<rparr>))"

text \<open>The value of \<open>*bytes_written\<close> after the call.\<close>

definition written_after :: "u32 \<Rightarrow> fw_reply \<Rightarrow> u32" where
  "written_after old r = (case fr_written r of None \<Rightarrow> old | Some n \<Rightarrow> n)"

section \<open>The internal path: bbapi_rw, bbapi_read, bbapi_write\<close>

text \<open>
  \<open>bbapi_rw\<close> returns an \<open>unsigned int\<close>: \<open>BIOSAPI_SRVNOTSUPP\<close> when no entry is set,
  else the status, negated in 32 bits after the offset is or-ed in when it is not zero.
  The model also returns the caller's output buffer, the value behind \<open>bytes_written\<close>,
  and the state.
\<close>

definition bbapi_rw :: "build_consts \<Rightarrow> 'f firmware \<Rightarrow> 'f world \<Rightarrow> u32 \<Rightarrow> u32 \<Rightarrow> u8 list option \<Rightarrow> u32
    \<Rightarrow> u8 list option \<Rightarrow> u32 \<Rightarrow> u32 \<Rightarrow> u32 \<times> u8 list option \<times> u32 \<times> 'f world" where
  "bbapi_rw K fw w grp offs inp size_in outp size_out bytes_written =
     (let cmd = \<lparr>nIndexGroup = grp, nIndexOffset = offs, pInBuffer = 0,
                 nInBufferSize = size_in, pOutBuffer = 0, nOutBufferSize = size_out,
                 pBytesReturned = 0, pMode = 0\<rparr>
      in if entry (g_bbapi w) = 0 then (BIOSAPI_SRVNOTSUPP K, outp, bytes_written, w)
         else let (r, w') = bbapi_call fw w inp outp cmd;
                  result = fr_status r;
                  outp' = map_option (\<lambda>b. overwrite b (fr_out r)) outp;
                  bytes_written' = written_after bytes_written r
              in if result \<noteq> 0
                 then (- (result OR BIOSAPIERR_OFFSET K), outp', bytes_written', w')
                 else (result, outp', bytes_written', w'))"

definition bbapi_read :: "build_consts \<Rightarrow> 'f firmware \<Rightarrow> 'f world \<Rightarrow> u32 \<Rightarrow> u32 \<Rightarrow> u8 list option \<Rightarrow> u32
    \<Rightarrow> u32 \<times> u8 list option \<times> 'f world" where
  "bbapi_read K fw w grp offs outp sz =
     (let (r, outp', bytes_written, w') = bbapi_rw K fw w grp offs None 0 outp sz 0
      in (r, outp', w'))"

definition bbapi_write :: "build_consts \<Rightarrow> 'f firmware \<Rightarrow> 'f world \<Rightarrow> u32 \<Rightarrow> u32 \<Rightarrow> u8 list option \<Rightarrow> u32
    \<Rightarrow> u32 \<times> 'f world" where
  "bbapi_write K fw w grp offs inp sz =
     (let (r, outp', bytes_written, w') = bbapi_rw K fw w grp offs inp sz None 0 0
      in (r, w'))"

section \<open>CapabilityProbe: bbapi_supports\<close>

definition bbapi_supports :: "build_consts \<Rightarrow> 'f firmware \<Rightarrow> 'f world \<Rightarrow> u32 \<Rightarrow> u32 \<Rightarrow> bool \<times> 'f world" where
  "bbapi_supports K fw w grp offs =
     (let (r, outp', w') = bbapi_read K fw w grp offs None 0
      in (if - r = BIOSAPI_INVALIDSIZE K then True
          else if - r = BIOSAPI_INVALIDPARM K then True
          else False, w'))"

section \<open>RequestGate: bbapi_ioctl_mutexed and bbapi_ioctl\<close>

text \<open>
  \<open>bbapi_ioctl_mutexed\<close> returns an \<open>int\<close>; the firmware's \<open>unsigned int\<close> status is
  or-ed with the offset, negated in 32 bits and converted to \<open>int\<close> (\<open>sint\<close>).
\<close>

definition bbapi_ioctl_mutexed :: "build_consts \<Rightarrow> 'f firmware \<Rightarrow> 'f world \<Rightarrow> bbapi_struct \<Rightarrow> int \<times> 'f world" where
  "bbapi_ioctl_mutexed K fw w cmd =
     (if unat (nInBufferSize cmd) > length (in_buf (g_bbapi w)) then (- EINVAL, w)
      else if unat (nOutBufferSize cmd) > length (out_buf (g_bbapi w)) then (- EINVAL, w)
      else let (left, staged) = copy_from_user (umem w) (in_buf (g_bbapi w)) (pInBuffer cmd)
                                  (unat (nInBufferSize cmd));
               w1 = w\<lparr>g_bbapi := (g_bbapi w)\<lparr>in_buf := staged\<rparr>\<rparr>
           in if left \<noteq> 0 then (- EFAULT, w1)
              else let (r, w2) = bbapi_call fw w1 (Some (in_buf (g_bbapi w1)))
                                   (Some (out_buf (g_bbapi w1))) cmd;
                       ret = fr_status r;
                       written = written_after 0 r;
                       w3 = w2\<lparr>g_bbapi := (g_bbapi w2)
                                 \<lparr>out_buf := overwrite (out_buf (g_bbapi w2)) (fr_out r)\<rparr>\<rparr>
                   in if ret \<noteq> 0 then (sint (- (ret OR BIOSAPIERR_OFFSET K)), w3)
                      else let (m', left') = copy_to_user (umem w3) (pOutBuffer cmd)
                                               (kernel_from_out (out_buf (g_bbapi w3)) (after_out w3)
                                                  (unat written));
                               w4 = w3\<lparr>umem := m'\<rparr>
                           in if left' \<noteq> 0 then (- EFAULT, w4)
                              else if pBytesReturned cmd \<noteq> 0
                              then (0, w4\<lparr>umem := put_user (umem w4) written (pBytesReturned cmd)\<rparr>)
                              else (0, w4))"

text \<open>
  \<open>bbapi_ioctl(f, cmd, arg)\<close>: the entry check, the command check, the copy of the
  descriptor (the legacy command copies the descriptor without its last two fields and
  sets them to \<open>NULL\<close>), the \<open>pMode\<close> check, the offset check, then
  \<open>bbapi_ioctl_mutexed\<close>.
\<close>

definition bbapi_ioctl :: "build_consts \<Rightarrow> 'f firmware \<Rightarrow> 'f world \<Rightarrow> u32 \<Rightarrow> addr \<Rightarrow> int \<times> 'f world" where
  "bbapi_ioctl K fw w cmd arg =
     (if entry (g_bbapi w) = 0 then (- EINVAL, w)
      else let legacy = (BBAPI_CMD_LEGACY K = Some cmd)
           in if \<not> legacy \<and> cmd \<noteq> BBAPI_CMD K then (- EINVAL, w)
              else case udesc w arg of
                     None \<Rightarrow> (- EINVAL, w)
                   | Some d \<Rightarrow>
                       let bbstruct = (if legacy then d\<lparr>pBytesReturned := 0, pMode := 0\<rparr> else d)
                       in if pMode bbstruct \<noteq> 0 then (- EINVAL, w)
                          else if nIndexOffset bbstruct \<ge> 0xB0 then (- EACCES, w)
                          else bbapi_ioctl_mutexed K fw w bbstruct)"

text \<open>
  The arguments with which \<open>bbapi_ioctl_mutexed\<close> enters the firmware: the staged input
  array and the output array as it stands. The arguments of the capability probe: a
  zero-length read with both buffers \<open>NULL\<close>.
\<close>

definition ioctl_fw_args :: "'f world \<Rightarrow> bbapi_struct \<Rightarrow> fw_args" where
  "ioctl_fw_args w cmd =
     \<lparr>fw_group = nIndexGroup cmd, fw_offset = nIndexOffset cmd,
      fw_in = Some (snd (copy_from_user (umem w) (in_buf (g_bbapi w)) (pInBuffer cmd)
                           (unat (nInBufferSize cmd)))),
      fw_in_size = nInBufferSize cmd, fw_out = Some (out_buf (g_bbapi w)),
      fw_out_size = nOutBufferSize cmd\<rparr>"

definition probe_args :: "u32 \<Rightarrow> u32 \<Rightarrow> fw_args" where
  "probe_args grp offs = \<lparr>fw_group = grp, fw_offset = offs, fw_in = None, fw_in_size = 0,
      fw_out = None, fw_out_size = 0\<rparr>"

section \<open>SignatureScanner and ShadowLoader: bbapi_find_bios and bbapi_copy_bios\<close>

text \<open>
  What the kernel and the hardware contribute at start-up: \<open>io_bytes\<close> is the physical
  memory from \<open>BBIOSAPI_SIGNATURE_PHYS_START_ADDR\<close> on, indexed by the distance from
  that address (it does not end where the mapped window ends); \<open>ioremap_null n\<close> says
  whether \<open>ioremap\<close> of \<open>n\<close> bytes returns \<open>NULL\<close>; \<open>vmalloc n\<close> is the address
  the allocator returns for \<open>n\<close> bytes (\<open>0\<close> for \<open>NULL\<close>);
  \<open>set_memory_x a n\<close> is the return value of that call.
\<close>

record platform =
  io_bytes :: "nat \<Rightarrow> u8"
  ioremap_null :: "nat \<Rightarrow> bool"
  vmalloc :: "nat \<Rightarrow> addr"
  set_memory_x :: "addr \<Rightarrow> nat \<Rightarrow> int"

definition BBIOSAPI_SIGNATURE :: "target \<Rightarrow> u64" where
  "BBIOSAPI_SIGNATURE t = (case t of I386 \<Rightarrow> 0x495041534F494242 | X86_64 \<Rightarrow> 0x3436584950414242)"

definition STEP_SIZE :: nat where "STEP_SIZE = 0x10"

definition PAGE_SHIFT :: nat where "PAGE_SHIFT = 12"

text \<open>\<open>ioread32\<close>: four bytes, least significant first.\<close>

definition ioread32 :: "(nat \<Rightarrow> u8) \<Rightarrow> nat \<Rightarrow> u32" where
  "ioread32 io p = ucast (io p) OR push_bit 8 (ucast (io (p + 1)))
     OR push_bit 16 (ucast (io (p + 2))) OR push_bit 24 (ucast (io (p + 3)))"

text \<open>The 64-bit value the scan compares: \<open>(uint64_t) high << 32 | low\<close>.\<close>

definition lword_at :: "(nat \<Rightarrow> u8) \<Rightarrow> nat \<Rightarrow> u64" where
  "lword_at io pos =
     (let low = ioread32 io pos; high = ioread32 io (pos + 4)
      in push_bit 32 (ucast high) OR ucast low)"

text \<open>
  \<open>bbapi_copy_bios(bbapi, pos)\<close>. \<open>offset + 4096\<close> is an \<open>uint32_t\<close> sum, so it wraps
  at \<open>2^32\<close> before it becomes the \<open>size_t size\<close>. The pointer \<open>memory\<close> is assigned
  before it is tested. \<open>memory_bytes\<close> is set by \<open>memcpy_fromio\<close> only.
\<close>

definition bbapi_copy_bios :: "platform \<Rightarrow> bbapi_object \<Rightarrow> nat \<Rightarrow> int \<times> bbapi_object" where
  "bbapi_copy_bios P bbapi pos =
     (let offset = ioread32 (io_bytes P) (pos + 8);
          sz = unat (offset + 4096);
          b1 = bbapi\<lparr>memory := vmalloc P sz\<rparr>
      in if memory b1 = 0 then (- ENOMEM, b1)
         else if set_memory_x P (memory b1) (drop_bit PAGE_SHIFT sz) \<noteq> 0 then (- EFAULT, b1)
         else (0, b1\<lparr>memory_bytes := map (\<lambda>i. io_bytes P (pos + i)) [0..<sz],
                      entry := memory b1 + unat offset\<rparr>))"

text \<open>
  The inner loop of \<open>bbapi_find_bios\<close>:
  \<open>for (pos = start + off; pos <= end - STEP_SIZE; pos += STEP_SIZE)\<close>, with positions
  counted from \<open>start\<close>, so that \<open>pos <= end - STEP_SIZE\<close> reads
  \<open>pos + STEP_SIZE \<le> area\<close>. It returns the position of the first match.
\<close>

function scan_stride :: "u64 \<Rightarrow> (nat \<Rightarrow> u8) \<Rightarrow> nat \<Rightarrow> nat \<Rightarrow> nat option" where
  "scan_stride sig io area pos =
     (if pos + STEP_SIZE \<le> area
      then (if sig = lword_at io pos then Some pos
            else scan_stride sig io area (pos + STEP_SIZE))
      else None)"
  by pat_completeness auto
termination
  by (relation "measure (\<lambda>(sig, io, area, pos). area - pos)") (auto simp add: STEP_SIZE_def)

text \<open>The outer loop: \<open>for (off = 0; off < STEP_SIZE; ++off)\<close>.\<close>

function scan_phases :: "u64 \<Rightarrow> (nat \<Rightarrow> u8) \<Rightarrow> nat \<Rightarrow> nat \<Rightarrow> nat option" where
  "scan_phases sig io area off =
     (if off < STEP_SIZE
      then (case scan_stride sig io area off of
              Some pos \<Rightarrow> Some pos
            | None \<Rightarrow> scan_phases sig io area (off + 1))
      else None)"
  by pat_completeness auto
termination
  by (relation "measure (\<lambda>(sig, io, area, off). STEP_SIZE - off)") auto

text \<open>
  \<open>bbapi_find_bios(bbapi)\<close>, with the module parameter \<open>g_bbapi_search_area\<close> as
  an argument.
\<close>

definition bbapi_find_bios :: "build_consts \<Rightarrow> platform \<Rightarrow> bbapi_object \<Rightarrow> nat \<Rightarrow> int \<times> bbapi_object" where
  "bbapi_find_bios K P bbapi g_bbapi_search_area =
     (if g_bbapi_search_area > BBIOSAPI_SIGNATURE_SEARCH_AREA K then (- EFAULT, bbapi)
      else if ioremap_null P g_bbapi_search_area then (- ENOMEM, bbapi)
      else case scan_phases (BBIOSAPI_SIGNATURE (build_target K)) (io_bytes P)
                  g_bbapi_search_area 0 of
             None \<Rightarrow> (- EFAULT, bbapi)
           | Some pos \<Rightarrow> bbapi_copy_bios P bbapi pos)"

text \<open>The positions the scan visits, phase by phase, in the order it visits them.\<close>

definition scan_order :: "nat \<Rightarrow> nat list" where
  "scan_order area =
     concat (map (\<lambda>off. map (\<lambda>k. off + STEP_SIZE * k) [0..<(area - off) div STEP_SIZE])
                 [0..<STEP_SIZE])"

section \<open>Sample inputs\<close>

text \<open>
  A build configuration for the examples: \<open>BBAPI_CMD\<close> as unittest.cpp defines it, no
  legacy command, and sample values for the constants of TcBaDevDef.h.
\<close>

definition sample_consts :: build_consts where
  "sample_consts = \<lparr>BIOSAPIERR_OFFSET = 0x20000000, BIOSAPI_SRVNOTSUPP = 0x20000001,
     BIOSAPI_INVALIDSIZE = 0x20000002, BIOSAPI_INVALIDPARM = 0x20000003, BBAPI_CMD = 0x5000,
     BBAPI_CMD_LEGACY = None, BBIOSAPI_SIGNATURE_SEARCH_AREA = 0x1FFFF, build_target = X86_64\<rparr>"

text \<open>
  The same build with status constants that do not contain the offset.
\<close>

definition raw_consts :: build_consts where
  "raw_consts = sample_consts\<lparr>BIOSAPI_SRVNOTSUPP := 1, BIOSAPI_INVALIDSIZE := 2,
     BIOSAPI_INVALIDPARM := 3\<rparr>"

text \<open>A bridge with two scratch arrays of 4096 bytes and an entry point.\<close>

definition sample_object :: bbapi_object where
  "sample_object = \<lparr>in_buf = replicate 4096 0, out_buf = replicate 4096 0, memory = 0x100000,
     memory_bytes = replicate 0x3000 0, entry = 0x102000\<rparr>"

text \<open>User memory: one mapped page at \<open>0x1000\<close>, its first byte \<open>0xAA\<close>.\<close>

definition sample_user :: "addr \<Rightarrow> u8 option" where
  "sample_user = (\<lambda>a. if 0x1000 \<le> a \<and> a < 0x2000 then Some (if a = 0x1000 then 0xAA else 0) else None)"

text \<open>A state whose user space holds the descriptor \<open>d\<close> at address \<open>0x800\<close>.\<close>

definition sample_world :: "bbapi_struct \<Rightarrow> nat world" where
  "sample_world d = \<lparr>g_bbapi = sample_object, after_out = (\<lambda>i. 0x5A), umem = sample_user,
     udesc = (\<lambda>a. if a = 0x800 then Some d else None), fw_state = 0, fw_calls = []\<rparr>"

text \<open>The same state before discovery: no entry point.\<close>

definition uninitialized_world :: "bbapi_struct \<Rightarrow> nat world" where
  "uninitialized_world d =
     (sample_world d)\<lparr>g_bbapi := sample_object\<lparr>memory := 0, memory_bytes := [], entry := 0\<rparr>\<rparr>"

text \<open>A ready bridge whose scratch arrays have two bytes each.\<close>

definition tiny_world :: "bbapi_struct \<Rightarrow> nat world" where
  "tiny_world d = (sample_world d)\<lparr>g_bbapi := sample_object\<lparr>in_buf := [0, 0], out_buf := [0, 0]\<rparr>\<rparr>"

text \<open>
  A firmware that answers every call with status \<open>st\<close>, stores \<open>bs\<close> in the output
  buffer and reports \<open>n\<close> bytes written; its state counts the calls.
\<close>

definition sample_fw :: "u32 \<Rightarrow> u8 list \<Rightarrow> u32 \<Rightarrow> nat firmware" where
  "sample_fw st bs n = (\<lambda>f a. (\<lparr>fr_status = st, fr_out = bs, fr_written = Some n\<rparr>, Suc f))"

definition request :: "u32 \<Rightarrow> u32 \<Rightarrow> addr \<Rightarrow> u32 \<Rightarrow> addr \<Rightarrow> u32 \<Rightarrow> addr \<Rightarrow> addr \<Rightarrow> bbapi_struct" where
  "request g off pin nin pout nout pbr pm =
     \<lparr>nIndexGroup = g, nIndexOffset = off, pInBuffer = pin, nInBufferSize = nin,
      pOutBuffer = pout, nOutBufferSize = nout, pBytesReturned = pbr, pMode = pm\<rparr>"

text \<open>
  Physical memory with the x86_64 signature \<open>BBAPIX64\<close> at offset 37, followed by the
  32-bit field \<open>fld\<close>, and zeros elsewhere.
\<close>

definition marker_io :: "u32 \<Rightarrow> nat \<Rightarrow> u8" where
  "marker_io fld = (\<lambda>i. if 37 \<le> i \<and> i < 49
     then ([0x42, 0x42, 0x41, 0x50, 0x49, 0x58, 0x36, 0x34] @ le_bytes32 fld) ! (i - 37) else 0)"

text \<open>A platform on which mapping, allocation and \<open>set_memory_x\<close> succeed.\<close>

definition sample_platform :: "(nat \<Rightarrow> u8) \<Rightarrow> platform" where
  "sample_platform io = \<lparr>io_bytes = io, ioremap_null = (\<lambda>n. n = 0),
     vmalloc = (\<lambda>n. if n = 0 then 0 else 0x100000), set_memory_x = (\<lambda>a n. 0)\<rparr>"

text \<open>The bridge object before discovery.\<close>

definition blank_object :: bbapi_object where
  "blank_object = \<lparr>in_buf = replicate 4096 0, out_buf = replicate 4096 0, memory = 0,
     memory_bytes = [], entry = 0\<rparr>"

section \<open>Auxiliary facts\<close>

lemmas sample_defs = sample_consts_def raw_consts_def sample_object_def sample_user_def sample_world_def
  uninitialized_world_def tiny_world_def sample_fw_def request_def

lemmas driver_defs = bbapi_ioctl_def bbapi_ioctl_mutexed_def bbapi_call_def copy_from_user_def
  written_after_def overwrite_def kernel_from_out_def put_user_def le_bytes32_def
  bbapi_rw_def bbapi_read_def bbapi_write_def bbapi_supports_def
  EINVAL_def EACCES_def EFAULT_def ENOMEM_def

declare scan_stride.simps [simp del] scan_phases.simps [simp del]

subsection \<open>Negation of 32-bit words read as \<open>int\<close>\<close>

lemma sint_eq_0: "(sint (x :: u32) = 0) = (x = 0)"
  using signed_eq_0_iff by fastforce

lemma sint_neg_or_nonzero: "ret \<noteq> 0 \<Longrightarrow> sint (- (ret OR off :: u32)) \<noteq> 0"
  by (simp add: sint_eq_0 or_eq_0_iff)

lemma mod_shift_down: "m \<le> (a::int) \<Longrightarrow> a < 2 * m \<Longrightarrow> a mod m = a - m"
proof -
  assume a: "m \<le> a" "a < 2 * m"
  have "a mod m = (a - m) mod m" by (simp only: minus_mod_self2)
  also have "\<dots> = a - m" by (rule mod_pos_pos_trivial) (use a in simp_all)
  finally show ?thesis .
qed

lemma sint_as_uint: "sint (z::u32) = (uint z + 2147483648) mod 4294967296 - 2147483648"
  by (simp add: sint_uint signed_take_bit_eq_take_bit_shift take_bit_eq_mod)

lemma uint_neg_u32: "y \<noteq> 0 \<Longrightarrow> uint (- (y::u32)) = 4294967296 - uint y"
proof -
  assume a: "y \<noteq> 0"
  have "uint y \<noteq> 0" using a by (simp add: uint_0_iff)
  then have pos: "0 < uint y" using uint_ge_0 [of y] by linarith
  have lt: "uint y < 4294967296" using uint_lt2p [of y] by simp
  have "uint (- y) = (- uint y) mod 4294967296" by (simp add: uint_word_ariths)
  also have "\<dots> = (- uint y + 4294967296) mod 4294967296" by (simp only: mod_add_self2)
  also have "\<dots> = - uint y + 4294967296" by (rule mod_pos_pos_trivial) (use pos lt in simp_all)
  finally show ?thesis by simp
qed

lemma sint_neg_u32:
  "y \<noteq> 0 \<Longrightarrow> sint (- (y::u32)) = (if uint y \<le> 2147483648 then - uint y else 4294967296 - uint y)"
proof -
  assume a: "y \<noteq> 0"
  have "uint y \<noteq> 0" using a by (simp add: uint_0_iff)
  then have pos: "0 < uint y" using uint_ge_0 [of y] by linarith
  have lt: "uint y < 4294967296" using uint_lt2p [of y] by simp
  have s: "sint (- y) = (6442450944 - uint y) mod 4294967296 - 2147483648"
    by (simp add: sint_as_uint uint_neg_u32 [OF a])
  show ?thesis
  proof (cases "uint y \<le> 2147483648")
    case True
    have "(6442450944 - uint y) mod 4294967296 = 6442450944 - uint y - 4294967296"
      by (rule mod_shift_down) (use True pos in simp_all)
    then show ?thesis using True by (simp add: s)
  next
    case False
    have "(6442450944 - uint y) mod 4294967296 = 6442450944 - uint y"
      by (rule mod_pos_pos_trivial) (use False lt in simp_all)
    then show ?thesis using False by (simp add: s)
  qed
qed

subsection \<open>Copies to and from user space\<close>

lemma fetch_numeral:
  "fetch m a (numeral k) =
     (case m a of None \<Rightarrow> [] | Some b \<Rightarrow> b # fetch m (Suc a) (pred_numeral k))"
  by (simp add: numeral_eq_Suc)

lemma copy_to_user_mapped:
  "(fst (copy_to_user m a bs) x = None) = (m x = None)"
  by (induction bs arbitrary: m a) (auto split: option.splits)

lemma copy_to_user_below:
  "x < a \<Longrightarrow> fst (copy_to_user m a bs) x = m x"
  by (induction bs arbitrary: m a) (auto split: option.splits)

lemma copy_to_user_done:
  "copy_to_user m a bs = (m', 0) \<Longrightarrow>
   m' = (\<lambda>x. if a \<le> x \<and> x < a + length bs then Some (bs ! (x - a)) else m x)"
proof (induction bs arbitrary: m a)
  case Nil
  then show ?case by (auto simp add: fun_eq_iff)
next
  case (Cons b bs)
  from Cons.prems obtain c where c: "m a = Some c" by (auto split: option.splits)
  with Cons.prems have "copy_to_user (m(a \<mapsto> b)) (Suc a) bs = (m', 0)" by simp
  from Cons.IH [OF this]
  have ih: "m' = (\<lambda>x. if Suc a \<le> x \<and> x < Suc a + length bs then Some (bs ! (x - Suc a))
                     else (m(a \<mapsto> b)) x)" .
  show ?case
  proof (rule ext)
    fix x
    show "m' x = (if a \<le> x \<and> x < a + length (b # bs) then Some ((b # bs) ! (x - a)) else m x)"
    proof (cases "x = a")
      case True
      then show ?thesis by (simp add: ih)
    next
      case False
      then have "a \<le> x \<Longrightarrow> (b # bs) ! (x - a) = bs ! (x - Suc a)"
        by (simp add: nth_Cons')
      with False show ?thesis by (auto simp add: ih)
    qed
  qed
qed

lemma fetch_cong_mapped:
  "(\<And>x. (m' x = None) = (m x = None)) \<Longrightarrow> length (fetch m' p n) = length (fetch m p n)"
proof (induction n arbitrary: p)
  case 0
  then show ?case by simp
next
  case (Suc n)
  show ?case using Suc.prems [of p] Suc.IH [OF Suc.prems, of "Suc p"]
    by (auto split: option.splits)
qed

lemma fetch_copy_to_user:
  "length (fetch m p (length bs)) = length bs \<Longrightarrow>
   fetch (fst (copy_to_user m p bs)) p (length bs) = bs"
proof (induction bs arbitrary: m p)
  case Nil
  then show ?case by simp
next
  case (Cons b bs)
  from Cons.prems obtain c where c: "m p = Some c" by (auto split: option.splits)
  let ?m1 = "m(p \<mapsto> b)"
  have same: "\<And>x. (?m1 x = None) = (m x = None)" using c by auto
  have "length (fetch ?m1 (Suc p) (length bs)) = length (fetch m (Suc p) (length bs))"
    by (rule fetch_cong_mapped) (rule same)
  with Cons.prems c have len: "length (fetch ?m1 (Suc p) (length bs)) = length bs" by simp
  have at_p: "fst (copy_to_user ?m1 (Suc p) bs) p = Some b"
    by (simp add: copy_to_user_below)
  have ih: "fetch (fst (copy_to_user ?m1 (Suc p) bs)) (Suc p) (length bs) = bs"
    by (rule Cons.IH [OF len])
  have "copy_to_user m p (b # bs) = copy_to_user ?m1 (Suc p) bs" using c by simp
  then show ?case by (simp add: at_p ih del: fun_upd_apply)
qed

lemma put_user_stored:
  "length (fetch m p 4) = 4 \<Longrightarrow> fetch (put_user m x p) p 4 = le_bytes32 x"
proof -
  assume a: "length (fetch m p 4) = 4"
  have l: "length (le_bytes32 x) = 4" by (simp add: le_bytes32_def)
  from a have "fetch (fst (copy_to_user m p (le_bytes32 x))) p (length (le_bytes32 x)) = le_bytes32 x"
    by (intro fetch_copy_to_user) (simp only: l)
  then show ?thesis using a by (simp add: put_user_def l)
qed

subsection \<open>The paths through the request gate\<close>

lemma mutexed_call_made:
  assumes "fw_calls (snd (bbapi_ioctl_mutexed K fw w cmd)) = fw_calls w @ [a]"
  shows "a = ioctl_fw_args w cmd
       \<and> unat (nInBufferSize cmd) \<le> length (in_buf (g_bbapi w))
       \<and> unat (nOutBufferSize cmd) \<le> length (out_buf (g_bbapi w))
       \<and> fst (copy_from_user (umem w) (in_buf (g_bbapi w)) (pInBuffer cmd) (unat (nInBufferSize cmd))) = 0"
  using assms
  by (auto simp add: bbapi_ioctl_mutexed_def bbapi_call_def ioctl_fw_args_def Let_def
      split: if_splits prod.splits)

lemma mutexed_failed_call:
  assumes "unat (nInBufferSize cmd) \<le> length (in_buf (g_bbapi w))"
    and "unat (nOutBufferSize cmd) \<le> length (out_buf (g_bbapi w))"
    and "copy_from_user (umem w) (in_buf (g_bbapi w)) (pInBuffer cmd) (unat (nInBufferSize cmd)) = (0, staged)"
    and "fw (fw_state w) (ioctl_fw_args w cmd) = (r, f')"
    and "fr_status r \<noteq> 0"
  shows "bbapi_ioctl_mutexed K fw w cmd =
     (sint (- (fr_status r OR BIOSAPIERR_OFFSET K)),
      w\<lparr>g_bbapi := (g_bbapi w)\<lparr>in_buf := staged, out_buf := overwrite (out_buf (g_bbapi w)) (fr_out r)\<rparr>,
        fw_state := f', fw_calls := fw_calls w @ [ioctl_fw_args w cmd]\<rparr>)"
  using assms
  by (simp add: bbapi_ioctl_mutexed_def bbapi_call_def ioctl_fw_args_def Let_def)

lemma ioctl_cases:
  "(snd (bbapi_ioctl K fw w cmd arg) = w \<and>
      (fst (bbapi_ioctl K fw w cmd arg) = - EINVAL \<or> fst (bbapi_ioctl K fw w cmd arg) = - EACCES))
   \<or> (\<exists>d. udesc w arg = Some d \<and> entry (g_bbapi w) \<noteq> 0 \<and>
         bbapi_ioctl K fw w cmd arg =
           bbapi_ioctl_mutexed K fw w
             (if BBAPI_CMD_LEGACY K = Some cmd then d\<lparr>pBytesReturned := 0, pMode := 0\<rparr> else d))"
  by (auto simp add: bbapi_ioctl_def Let_def split: option.splits)

lemma ioctl_call_made:
  assumes "fw_calls (snd (bbapi_ioctl K fw w cmd arg)) = fw_calls w @ [a]"
  obtains d where "bbapi_ioctl K fw w cmd arg = bbapi_ioctl_mutexed K fw w d"
    and "a = ioctl_fw_args w d"
    and "unat (nInBufferSize d) \<le> length (in_buf (g_bbapi w))"
    and "unat (nOutBufferSize d) \<le> length (out_buf (g_bbapi w))"
    and "fst (copy_from_user (umem w) (in_buf (g_bbapi w)) (pInBuffer d) (unat (nInBufferSize d))) = 0"
proof -
  from assms have "snd (bbapi_ioctl K fw w cmd arg) \<noteq> w" by auto
  with ioctl_cases [of K fw w cmd arg] obtain d where
    d: "bbapi_ioctl K fw w cmd arg = bbapi_ioctl_mutexed K fw w d" by auto
  with assms have "fw_calls (snd (bbapi_ioctl_mutexed K fw w d)) = fw_calls w @ [a]" by simp
  from mutexed_call_made [OF this] d that show thesis by blast
qed

lemma ioctl_failed_call:
  assumes "fw_calls (snd (bbapi_ioctl K fw w cmd arg)) = fw_calls w @ [a]"
    and "fw (fw_state w) a = (r, f')" and "fr_status r \<noteq> 0"
  shows "\<exists>staged. bbapi_ioctl K fw w cmd arg =
     (sint (- (fr_status r OR BIOSAPIERR_OFFSET K)),
      w\<lparr>g_bbapi := (g_bbapi w)\<lparr>in_buf := staged, out_buf := overwrite (out_buf (g_bbapi w)) (fr_out r)\<rparr>,
        fw_state := f', fw_calls := fw_calls w @ [a]\<rparr>) \<and> fw_in a = Some staged"
proof -
  from assms(1) obtain d where d: "bbapi_ioctl K fw w cmd arg = bbapi_ioctl_mutexed K fw w d"
    and a: "a = ioctl_fw_args w d"
    and sz: "unat (nInBufferSize d) \<le> length (in_buf (g_bbapi w))"
      "unat (nOutBufferSize d) \<le> length (out_buf (g_bbapi w))"
    and cp: "fst (copy_from_user (umem w) (in_buf (g_bbapi w)) (pInBuffer d) (unat (nInBufferSize d))) = 0"
    by (rule ioctl_call_made)
  obtain staged where st: "copy_from_user (umem w) (in_buf (g_bbapi w)) (pInBuffer d)
      (unat (nInBufferSize d)) = (0, staged)"
    using cp by (cases "copy_from_user (umem w) (in_buf (g_bbapi w)) (pInBuffer d)
      (unat (nInBufferSize d))") simp
  have r: "fw (fw_state w) (ioctl_fw_args w d) = (r, f')" using assms(2) a by simp
  have "fw_in a = Some staged" using a st by (simp add: ioctl_fw_args_def)
  then show ?thesis
    using mutexed_failed_call [where fw = fw and K = K, OF sz st r assms(3)] d a by simp
qed

subsection \<open>The signature scan as a search along the visiting order\<close>

lemma find_append_case:
  "List.find P (xs @ ys) = (case List.find P xs of Some x \<Rightarrow> Some x | None \<Rightarrow> List.find P ys)"
  by (induction xs) auto

lemma stride_row_step:
  "pos + STEP_SIZE \<le> area \<Longrightarrow>
   map (\<lambda>k. pos + STEP_SIZE * k) [0..<(area - pos) div STEP_SIZE]
     = pos # map (\<lambda>k. (pos + STEP_SIZE) + STEP_SIZE * k) [0..<(area - (pos + STEP_SIZE)) div STEP_SIZE]"
proof -
  assume a: "pos + STEP_SIZE \<le> area"
  have "(area - pos) div STEP_SIZE = Suc ((area - (pos + STEP_SIZE)) div STEP_SIZE)"
    using a by (simp add: STEP_SIZE_def)
  moreover have "\<And>n. [Suc 0..<Suc n] = map Suc [0..<n]" by (simp only: map_Suc_upt)
  ultimately show ?thesis
    by (simp add: upt_conv_Cons add.assoc del: upt_Suc)
qed

lemma scan_stride_find:
  "scan_stride sig io area pos =
     List.find (\<lambda>p. sig = lword_at io p) (map (\<lambda>k. pos + STEP_SIZE * k) [0..<(area - pos) div STEP_SIZE])"
proof (induction sig io area pos rule: scan_stride.induct)
  case (1 sig io area pos)
  show ?case
  proof (cases "pos + STEP_SIZE \<le> area")
    case True
    show ?thesis
      using True "1.IH" by (subst scan_stride.simps) (simp add: stride_row_step)
  next
    case False
    then have "(area - pos) div STEP_SIZE = 0" by (simp add: STEP_SIZE_def)
    with False show ?thesis by (subst scan_stride.simps) simp
  qed
qed

lemma scan_phases_find:
  "scan_phases sig io area off =
     List.find (\<lambda>p. sig = lword_at io p)
       (concat (map (\<lambda>off. map (\<lambda>k. off + STEP_SIZE * k) [0..<(area - off) div STEP_SIZE])
                    [off..<STEP_SIZE]))"
proof (induction sig io area off rule: scan_phases.induct)
  case (1 sig io area off)
  show ?case
  proof (cases "off < STEP_SIZE")
    case True
    then have row: "[off..<STEP_SIZE] = off # [Suc off..<STEP_SIZE]" by (simp add: upt_conv_Cons)
    show ?thesis
    proof (cases "scan_stride sig io area off")
      case None
      with True "1.IH" show ?thesis
        by (subst scan_phases.simps) (simp add: row find_append_case scan_stride_find [symmetric])
    next
      case (Some q)
      with True show ?thesis
        by (subst scan_phases.simps) (simp add: row find_append_case scan_stride_find [symmetric])
    qed
  next
    case False
    then show ?thesis by (subst scan_phases.simps) simp
  qed
qed

lemma scan_phases_order:
  "scan_phases sig io area 0 = List.find (\<lambda>p. sig = lword_at io p) (scan_order area)"
  by (simp add: scan_phases_find scan_order_def)

lemma div16_a: "k < n div 16 \<Longrightarrow> 16 * k + 16 \<le> (n::nat)"
proof -
  assume "k < n div 16"
  then have "Suc k \<le> n div 16" by simp
  then have "16 * Suc k \<le> 16 * (n div 16)" by (rule mult_le_mono2)
  also have "\<dots> \<le> n" by (rule times_div_less_eq_dividend)
  finally show ?thesis by simp
qed

lemma div16_b: "p + 16 \<le> (area::nat) \<Longrightarrow> p div 16 < (area - p mod 16) div 16"
proof -
  assume a: "p + 16 \<le> area"
  define q where "q = p div 16"
  define r where "r = p mod 16"
  have p: "p = 16 * q + r" by (simp add: q_def r_def)
  from a p have "16 * Suc q \<le> area - r" by simp
  then have "(16 * Suc q) div 16 \<le> (area - r) div 16" by (rule div_le_mono)
  then show ?thesis by (simp add: q_def r_def)
qed

lemma in_scan_order:
  "(p \<in> set (scan_order area)) = (\<exists>off<16. \<exists>k<(area - off) div 16. p = off + 16 * k)"
proof
  assume "p \<in> set (scan_order area)"
  then show "\<exists>off<16. \<exists>k<(area - off) div 16. p = off + 16 * k"
    by (auto simp add: scan_order_def STEP_SIZE_def)
next
  assume "\<exists>off<16. \<exists>k<(area - off) div 16. p = off + 16 * k"
  then obtain off k where ok: "off < 16" "k < (area - off) div 16" "p = off + 16 * k" by blast
  have "\<exists>x\<in>{0..<16::nat}. p \<in> (\<lambda>xa. x + 16 * xa) ` {0..<(area - x) div 16}"
  proof (rule bexI [of _ off])
    show "p \<in> (\<lambda>xa. off + 16 * xa) ` {0..<(area - off) div 16}"
      by (rule image_eqI [of _ _ k]) (use ok in simp_all)
    show "off \<in> {0..<16}" using ok by simp
  qed
  then show "p \<in> set (scan_order area)"
    by (simp add: scan_order_def STEP_SIZE_def)
qed

lemma set_scan_order: "set (scan_order area) = {p. p + STEP_SIZE \<le> area}"
proof (rule set_eqI)
  fix p
  show "(p \<in> set (scan_order area)) = (p \<in> {p. p + STEP_SIZE \<le> area})"
  proof
    assume "p \<in> set (scan_order area)"
    then obtain off k where ok: "off < 16" "k < (area - off) div 16" "p = off + 16 * k"
      unfolding in_scan_order by blast
    from div16_a [OF ok(2)] ok show "p \<in> {p. p + STEP_SIZE \<le> area}"
      by (simp add: STEP_SIZE_def)
  next
    assume "p \<in> {p. p + STEP_SIZE \<le> area}"
    then have a: "p + 16 \<le> area" by (simp add: STEP_SIZE_def)
    have "\<exists>k<(area - p mod 16) div 16. p = p mod 16 + 16 * k"
      by (rule exI [of _ "p div 16"]) (simp add: div16_b [OF a])
    moreover have "p mod 16 < 16" by simp
    ultimately show "p \<in> set (scan_order area)" unfolding in_scan_order by blast
  qed
qed

lemma scan_finds:
  assumes "p + STEP_SIZE \<le> area" and "sig = lword_at io p"
  shows "\<exists>q. scan_phases sig io area 0 = Some q \<and> sig = lword_at io q \<and> q + STEP_SIZE \<le> area"
proof -
  let ?P = "\<lambda>p. sig = lword_at io p"
  from assms have "p \<in> set (scan_order area)" by (simp add: set_scan_order)
  with assms(2) have "List.find ?P (scan_order area) \<noteq> None" by (auto simp add: find_None_iff)
  then obtain q where q: "List.find ?P (scan_order area) = Some q" by auto
  then have "?P q \<and> q \<in> set (scan_order area)" by (auto simp add: find_Some_iff)
  with q show ?thesis by (simp add: scan_phases_order set_scan_order)
qed

lemma scan_misses:
  assumes "\<forall>p. p + STEP_SIZE \<le> area \<longrightarrow> sig \<noteq> lword_at io p"
  shows "scan_phases sig io area 0 = None"
  using assms by (simp add: scan_phases_order find_None_iff set_scan_order)

subsection \<open>Failed and successful firmware calls\<close>

lemma rw_failed_call:
  assumes "fw_calls (snd (snd (snd (bbapi_rw K fw w grp offs inp size_in outp size_out bw)))) = fw_calls w @ [a]"
    and "fr_status (fst (fw (fw_state w) a)) = s" and "s \<noteq> 0"
  shows "fst (bbapi_rw K fw w grp offs inp size_in outp size_out bw) = - (s OR BIOSAPIERR_OFFSET K)
       \<and> g_bbapi (snd (snd (snd (bbapi_rw K fw w grp offs inp size_in outp size_out bw)))) = g_bbapi w"
  using assms
  by (auto simp add: bbapi_rw_def bbapi_call_def Let_def split: if_splits prod.splits)

lemma length_kernel_from_out: "length (kernel_from_out out after n) = n"
  by (simp add: kernel_from_out_def)

lemma mutexed_success:
  assumes "bbapi_ioctl_mutexed K fw w cmd = (0, w')"
  shows "\<exists>m'. fr_status (fst (fw (fw_state w) (ioctl_fw_args w cmd))) = 0
       \<and> fw_calls w' = fw_calls w @ [ioctl_fw_args w cmd]
       \<and> out_buf (g_bbapi w')
           = overwrite (out_buf (g_bbapi w)) (fr_out (fst (fw (fw_state w) (ioctl_fw_args w cmd))))
       \<and> copy_to_user (umem w) (pOutBuffer cmd)
            (kernel_from_out (out_buf (g_bbapi w')) (after_out w')
               (unat (written_after 0 (fst (fw (fw_state w) (ioctl_fw_args w cmd)))))) = (m', 0)
       \<and> umem w' =
           (if pBytesReturned cmd \<noteq> 0
            then put_user m' (written_after 0 (fst (fw (fw_state w) (ioctl_fw_args w cmd))))
                   (pBytesReturned cmd)
            else m')"
proof -
  let ?a = "ioctl_fw_args w cmd"
  obtain r f' where r: "fw (fw_state w) ?a = (r, f')" by (cases "fw (fw_state w) ?a")
  obtain left staged where cf: "copy_from_user (umem w) (in_buf (g_bbapi w)) (pInBuffer cmd)
      (unat (nInBufferSize cmd)) = (left, staged)"
    by (cases "copy_from_user (umem w) (in_buf (g_bbapi w)) (pInBuffer cmd) (unat (nInBufferSize cmd))")
  have ne: "- EINVAL \<noteq> 0" "- EFAULT \<noteq> 0" by (simp_all add: EINVAL_def EFAULT_def)
  have a': "\<lparr>fw_group = nIndexGroup cmd, fw_offset = nIndexOffset cmd, fw_in = Some staged,
             fw_in_size = nInBufferSize cmd, fw_out = Some (out_buf (g_bbapi w)),
             fw_out_size = nOutBufferSize cmd\<rparr> = ?a"
    by (simp add: ioctl_fw_args_def cf)
  from assms show ?thesis
    using sint_neg_or_nonzero [of "fr_status r" "BIOSAPIERR_OFFSET K"] ne
    by (auto simp add: bbapi_ioctl_mutexed_def bbapi_call_def Let_def cf a' r
        split: if_splits prod.splits)
qed

lemma ioctl_success:
  assumes "bbapi_ioctl K fw w cmd arg = (0, w')" and "udesc w arg = Some d"
  shows "bbapi_ioctl_mutexed K fw w
           (if BBAPI_CMD_LEGACY K = Some cmd then d\<lparr>pBytesReturned := 0, pMode := 0\<rparr> else d) = (0, w')"
  using assms by (auto simp add: bbapi_ioctl_def Let_def EINVAL_def EACCES_def split: if_splits)

subsection \<open>The shadow copy where the size does not wrap\<close>

lemma copy_bios_success:
  assumes "vmalloc P (unat (ioread32 (io_bytes P) (pos + 8) + 4096)) \<noteq> 0"
    and "set_memory_x P (vmalloc P (unat (ioread32 (io_bytes P) (pos + 8) + 4096)))
           (drop_bit PAGE_SHIFT (unat (ioread32 (io_bytes P) (pos + 8) + 4096))) = 0"
  shows "let fld = ioread32 (io_bytes P) (pos + 8);
             (r, b) = bbapi_copy_bios P bbapi pos
         in r = 0
          \<and> memory b = vmalloc P (unat (fld + 4096))
          \<and> length (memory_bytes b) = (unat fld + 4096) mod 2 ^ 32
          \<and> (\<forall>i < length (memory_bytes b). memory_bytes b ! i = io_bytes P (pos + i))
          \<and> entry b = memory b + unat fld"
  using assms
  by (simp add: bbapi_copy_bios_def Let_def unat_word_ariths)

lemma copy_bios_spec_example:
  "ioread32 (marker_io 0x2000) (37 + 8) = 0x2000
   \<and> fst (bbapi_copy_bios (sample_platform (marker_io 0x2000)) blank_object 37) = 0
   \<and> length (memory_bytes (snd (bbapi_copy_bios (sample_platform (marker_io 0x2000)) blank_object 37)))
       = 0x3000
   \<and> entry (snd (bbapi_copy_bios (sample_platform (marker_io 0x2000)) blank_object 37))
       = memory (snd (bbapi_copy_bios (sample_platform (marker_io 0x2000)) blank_object 37)) + 0x2000"
proof -
  have f: "ioread32 (marker_io 0x2000) 45 = 0x2000"
    by (simp add: ioread32_def marker_io_def le_bytes32_def)
  show ?thesis
    by (simp add: f bbapi_copy_bios_def sample_platform_def blank_object_def Let_def)
qed

section \<open>The claims\<close>

subsection \<open>C1: the access threshold\<close>

text \<open>
  C1, as amended. On a bridge with an entry point, a request whose descriptor is read under
  the driver's command and whose reserved field \<open>pMode\<close> is \<open>NULL\<close> (the legacy
  command sets it so) is rejected with \<open>-EACCES\<close> when its offset is \<open>0xB0\<close> or more,
  for every group, payload and declared size. The state is as before: no byte has reached
  the scratch arrays and the firmware has not been entered.
\<close>

theorem access_threshold_rejects:
  assumes "entry (g_bbapi w) \<noteq> 0" and "udesc w arg = Some d"
    and "BBAPI_CMD_LEGACY K = Some cmd \<or> (cmd = BBAPI_CMD K \<and> pMode d = 0)"
    and "0xB0 \<le> nIndexOffset d"
  shows "bbapi_ioctl K fw w cmd arg = (- EACCES, w)"
  using assms by (auto simp add: bbapi_ioctl_def Let_def)

theorem access_threshold_rejects_witness:
  "entry (g_bbapi (sample_world (request 7 0xB5 0x1000 5000 0x1100 9 0 0))) \<noteq> 0
   \<and> udesc (sample_world (request 7 0xB5 0x1000 5000 0x1100 9 0 0)) 0x800
       = Some (request 7 0xB5 0x1000 5000 0x1100 9 0 0)
   \<and> 0x5000 = BBAPI_CMD sample_consts \<and> pMode (request 7 0xB5 0x1000 5000 0x1100 9 0 0) = 0
   \<and> 0xB0 \<le> nIndexOffset (request 7 0xB5 0x1000 5000 0x1100 9 0 0)
   \<and> bbapi_ioctl sample_consts (sample_fw 0 [] 0) (sample_world (request 7 0xB5 0x1000 5000 0x1100 9 0 0))
        0x5000 0x800
      = (- 13, sample_world (request 7 0xB5 0x1000 5000 0x1100 9 0 0))"
proof -
  let ?d = "request 7 0xB5 0x1000 5000 0x1100 9 0 0"
  have h1: "entry (g_bbapi (sample_world ?d)) \<noteq> 0" by (simp add: sample_defs)
  have h2: "udesc (sample_world ?d) 0x800 = Some ?d" by (simp add: sample_defs)
  have h3: "BBAPI_CMD_LEGACY sample_consts = Some 0x5000 \<or> (0x5000 = BBAPI_CMD sample_consts \<and> pMode ?d = 0)"
    by (simp add: sample_defs)
  have h4: "0xB0 \<le> nIndexOffset ?d" by (simp add: sample_defs)
  show ?thesis
    using h1 h2 h3 h4 access_threshold_rejects [OF h1 h2 h3 h4, of "sample_fw 0 [] 0"]
    by (simp add: EACCES_def) (simp add: sample_defs)
qed

text \<open>
  C1 as stated fails: a request with offset \<open>0xB5\<close> and a reserved field that is not
  \<open>NULL\<close> is answered with \<open>-EINVAL\<close>, not with \<open>-EACCES\<close>.
\<close>

theorem access_threshold_counterexample:
  "0xB0 \<le> nIndexOffset (request 0 0xB5 0 0 0 0 0 1)
   \<and> fst (bbapi_ioctl sample_consts (sample_fw 0 [] 0) (sample_world (request 0 0xB5 0 0 0 0 0 1))
           0x5000 0x800) = - EINVAL
   \<and> - EINVAL \<noteq> - EACCES"
  by (simp add: sample_defs driver_defs)

subsection \<open>C2: the order of the checks\<close>

text \<open>
  C2, as amended. For a request read under the driver's full command on a bridge with an
  entry point, the checks decide in this order: first the reserved field (\<open>pMode\<close> not
  \<open>NULL\<close> gives \<open>-EINVAL\<close> whatever the offset), then the access threshold (offset
  \<open>0xB0\<close> or more gives \<open>-EACCES\<close> whatever the sizes), then the two size checks, and
  only then staging and the firmware call. Every rejection leaves the state as it was.
\<close>

theorem validation_order:
  assumes "entry (g_bbapi w) \<noteq> 0" and "udesc w arg = Some d"
    and "BBAPI_CMD_LEGACY K \<noteq> Some (BBAPI_CMD K)"
  shows "bbapi_ioctl K fw w (BBAPI_CMD K) arg =
     (if pMode d \<noteq> 0 then (- EINVAL, w)
      else if 0xB0 \<le> nIndexOffset d then (- EACCES, w)
      else if length (in_buf (g_bbapi w)) < unat (nInBufferSize d)
              \<or> length (out_buf (g_bbapi w)) < unat (nOutBufferSize d) then (- EINVAL, w)
      else bbapi_ioctl_mutexed K fw w d)"
  using assms by (auto simp add: bbapi_ioctl_def bbapi_ioctl_mutexed_def Let_def)

theorem validation_order_witness:
  "entry (g_bbapi (sample_world (request 0 0xB5 0x1000 5000 0 0 0 0))) \<noteq> 0
   \<and> udesc (sample_world (request 0 0xB5 0x1000 5000 0 0 0 0)) 0x800
       = Some (request 0 0xB5 0x1000 5000 0 0 0 0)
   \<and> BBAPI_CMD_LEGACY sample_consts \<noteq> Some (BBAPI_CMD sample_consts)
   \<and> bbapi_ioctl sample_consts (sample_fw 0 [] 0) (sample_world (request 0 0xB5 0x1000 5000 0 0 0 0))
         (BBAPI_CMD sample_consts) 0x800
       = (- 13, sample_world (request 0 0xB5 0x1000 5000 0 0 0 0))
   \<and> bbapi_ioctl sample_consts (sample_fw 0 [] 0) (sample_world (request 0 0x10 0x1000 5000 0 0 0 0))
         (BBAPI_CMD sample_consts) 0x800
       = (- 22, sample_world (request 0 0x10 0x1000 5000 0 0 0 0))"
proof -
  let ?d = "request 0 0xB5 0x1000 5000 0 0 0 0"
  let ?e = "request 0 0x10 0x1000 5000 0 0 0 0"
  have h1: "entry (g_bbapi (sample_world ?d)) \<noteq> 0" "entry (g_bbapi (sample_world ?e)) \<noteq> 0"
    by (simp_all add: sample_defs)
  have h2: "udesc (sample_world ?d) 0x800 = Some ?d" "udesc (sample_world ?e) 0x800 = Some ?e"
    by (simp_all add: sample_defs)
  have h3: "BBAPI_CMD_LEGACY sample_consts \<noteq> Some (BBAPI_CMD sample_consts)"
    by (simp add: sample_defs)
  have d: "pMode ?d = 0" "0xB0 \<le> nIndexOffset ?d" by (simp_all add: request_def)
  have e: "pMode ?e = 0" "\<not> 0xB0 \<le> nIndexOffset ?e"
    "length (in_buf (g_bbapi (sample_world ?e))) < unat (nInBufferSize ?e)"
    by (simp_all add: sample_defs)
  show ?thesis
    using h1 h2 h3
      validation_order [OF h1(1) h2(1) h3, of "sample_fw 0 [] 0"]
      validation_order [OF h1(2) h2(2) h3, of "sample_fw 0 [] 0"]
    by (simp add: d e EACCES_def EINVAL_def)
qed

text \<open>
  C2 as stated fails: the reserved-field check runs before the access check. A request whose
  offset is \<open>0xB0\<close> and whose sizes are zero is answered with \<open>-EACCES\<close> when \<open>pMode\<close>
  is \<open>NULL\<close>, and with \<open>-EINVAL\<close> when \<open>pMode\<close> is not.
\<close>

theorem validation_order_counterexample:
  "0xB0 \<le> nIndexOffset (request 0 0xB0 0 0 0 0 0 0xDEAD)
   \<and> fst (bbapi_ioctl sample_consts (sample_fw 0 [] 0) (sample_world (request 0 0xB0 0 0 0 0 0 0xDEAD))
           0x5000 0x800) = - EINVAL
   \<and> fst (bbapi_ioctl sample_consts (sample_fw 0 [] 0) (sample_world (request 0 0xB0 0 0 0 0 0 0))
           0x5000 0x800) = - EACCES
   \<and> - EINVAL \<noteq> - EACCES"
  by (simp add: sample_defs driver_defs)

subsection \<open>C3: calls before discovery\<close>

text \<open>
  C3. While no entry point is published, every call fails at once and the firmware is not
  entered: \<open>bbapi_rw\<close>, \<open>bbapi_read\<close> and \<open>bbapi_write\<close> return
  \<open>BIOSAPI_SRVNOTSUPP\<close>, \<open>bbapi_ioctl\<close> returns \<open>-EINVAL\<close>, and the whole state,
  with its record of firmware calls, is as before. These two values are what the driver
  reports for an unavailable service.
\<close>

theorem uninitialized_calls_fail_fast:
  assumes "entry (g_bbapi w) = 0"
  shows "bbapi_rw K fw w grp offs inp size_in outp size_out bw = (BIOSAPI_SRVNOTSUPP K, outp, bw, w)
       \<and> bbapi_read K fw w grp offs outp sz = (BIOSAPI_SRVNOTSUPP K, outp, w)
       \<and> bbapi_write K fw w grp offs inp sz = (BIOSAPI_SRVNOTSUPP K, w)
       \<and> bbapi_ioctl K fw w cmd arg = (- EINVAL, w)"
  using assms by (simp add: bbapi_rw_def bbapi_read_def bbapi_write_def bbapi_ioctl_def)

theorem uninitialized_calls_fail_fast_witness:
  "entry (g_bbapi (uninitialized_world (request 0 1 0 0 0x1000 4 0 0))) = 0
   \<and> bbapi_read sample_consts (sample_fw 0 [] 0) (uninitialized_world (request 0 1 0 0 0x1000 4 0 0))
        0 1 (Some [0, 0, 0, 0]) 4
      = (0x20000001, Some [0, 0, 0, 0], uninitialized_world (request 0 1 0 0 0x1000 4 0 0))
   \<and> bbapi_ioctl sample_consts (sample_fw 0 [] 0) (uninitialized_world (request 0 1 0 0 0x1000 4 0 0))
        0x5000 0x800
      = (- 22, uninitialized_world (request 0 1 0 0 0x1000 4 0 0))
   \<and> fw_calls (uninitialized_world (request 0 1 0 0 0x1000 4 0 0)) = []"
proof -
  have h: "entry (g_bbapi (uninitialized_world (request 0 1 0 0 0x1000 4 0 0))) = 0"
    by (simp add: sample_defs)
  show ?thesis
    using h uninitialized_calls_fail_fast [OF h, where K = sample_consts and fw = "sample_fw 0 [] 0"
        and grp = 0 and offs = 1 and outp = "Some [0, 0, 0, 0]" and sz = 4 and cmd = "0x5000"
        and arg = "0x800"]
    by (simp add: sample_consts_def EINVAL_def) (simp add: sample_defs)
qed

subsection \<open>C4: oversized requests\<close>

text \<open>
  C4, as amended. A request whose input size exceeds \<open>sizeof(in)\<close> or whose output size
  exceeds \<open>sizeof(out)\<close> never moves data and never enters the firmware: the state is as
  before. \<open>bbapi_ioctl_mutexed\<close> answers it with \<open>-EINVAL\<close>; so does \<open>bbapi_ioctl\<close>,
  except that a request with a \<open>NULL\<close> reserved field and an offset of \<open>0xB0\<close> or more
  has been rejected with \<open>-EACCES\<close> before its sizes are looked at.
\<close>

theorem oversized_request_rejected:
  assumes "udesc w arg = Some d"
    and "length (in_buf (g_bbapi w)) < unat (nInBufferSize d)
         \<or> length (out_buf (g_bbapi w)) < unat (nOutBufferSize d)"
  shows "bbapi_ioctl_mutexed K fw w d = (- EINVAL, w)
       \<and> bbapi_ioctl K fw w cmd arg =
           (if entry (g_bbapi w) \<noteq> 0
               \<and> (BBAPI_CMD_LEGACY K = Some cmd \<or> (cmd = BBAPI_CMD K \<and> pMode d = 0))
               \<and> 0xB0 \<le> nIndexOffset d
            then - EACCES else - EINVAL, w)"
  using assms by (auto simp add: bbapi_ioctl_def bbapi_ioctl_mutexed_def Let_def)

theorem oversized_request_rejected_witness:
  "udesc (sample_world (request 1 0x20 0x1000 5000 0x1100 4 0 0)) 0x800
       = Some (request 1 0x20 0x1000 5000 0x1100 4 0 0)
   \<and> length (in_buf (g_bbapi (sample_world (request 1 0x20 0x1000 5000 0x1100 4 0 0))))
       < unat (nInBufferSize (request 1 0x20 0x1000 5000 0x1100 4 0 0))
   \<and> bbapi_ioctl sample_consts (sample_fw 0 [] 0) (sample_world (request 1 0x20 0x1000 5000 0x1100 4 0 0))
         0x5000 0x800
       = (- 22, sample_world (request 1 0x20 0x1000 5000 0x1100 4 0 0))"
proof -
  let ?d = "request 1 0x20 0x1000 5000 0x1100 4 0 0"
  have h1: "udesc (sample_world ?d) 0x800 = Some ?d" by (simp add: sample_defs)
  have h2: "length (in_buf (g_bbapi (sample_world ?d))) < unat (nInBufferSize ?d)"
    by (simp add: sample_defs)
  have h3: "\<not> 0xB0 \<le> nIndexOffset ?d" by (simp add: request_def)
  show ?thesis
    using h1 h2 oversized_request_rejected [OF h1 disjI1 [OF h2], of sample_consts "sample_fw 0 [] 0" "0x5000"]
    by (simp add: h3 EINVAL_def)
qed

text \<open>
  C4 as stated fails: a request with input size 5000 against a 4096-byte scratch array and
  offset \<open>0xB5\<close> is answered with \<open>-EACCES\<close>, not with \<open>-EINVAL\<close>.
\<close>

theorem oversized_request_counterexample:
  "length (in_buf (g_bbapi (sample_world (request 0 0xB5 0x1000 5000 0 0 0 0)))) = 4096
   \<and> unat (nInBufferSize (request 0 0xB5 0x1000 5000 0 0 0 0)) = 5000
   \<and> fst (bbapi_ioctl sample_consts (sample_fw 0 [] 0) (sample_world (request 0 0xB5 0x1000 5000 0 0 0 0))
           0x5000 0x800) = - EACCES
   \<and> - EACCES \<noteq> - EINVAL"
  by (simp add: sample_defs driver_defs)

subsection \<open>C5: translation of a firmware error\<close>

text \<open>
  C5, as amended. When the firmware has been entered and has returned a status \<open>s\<close> that
  is not zero, the caller gets the 32-bit two's-complement negation of
  \<open>s | BIOSAPIERR_OFFSET\<close>: as an \<open>unsigned int\<close> from \<open>bbapi_rw\<close>, and converted
  to \<open>int\<close> from \<open>bbapi_ioctl\<close>, where it is the negative number
  \<open>-(s | BIOSAPIERR_OFFSET)\<close> as long as \<open>s | BIOSAPIERR_OFFSET\<close> is at most \<open>2^31\<close>.
  On the internal path \<open>g_bbapi\<close> is unchanged. On the external path the entry pointer,
  the image pointer and the image are unchanged, while the input scratch array holds the
  staged payload and the output scratch array what the firmware stored.
\<close>

theorem firmware_error_translated:
  assumes "s \<noteq> 0"
  shows "(fw_calls (snd (snd (snd (bbapi_rw K fw w grp offs inp size_in outp size_out bw)))) = fw_calls w @ [a]
          \<and> fr_status (fst (fw (fw_state w) a)) = s
          \<longrightarrow> fst (bbapi_rw K fw w grp offs inp size_in outp size_out bw) = - (s OR BIOSAPIERR_OFFSET K)
            \<and> g_bbapi (snd (snd (snd (bbapi_rw K fw w grp offs inp size_in outp size_out bw)))) = g_bbapi w)
       \<and> (fw_calls (snd (bbapi_ioctl K fw w cmd arg)) = fw_calls w @ [b]
          \<and> fr_status (fst (fw (fw_state w) b)) = s
          \<longrightarrow> fst (bbapi_ioctl K fw w cmd arg) = sint (- (s OR BIOSAPIERR_OFFSET K))
            \<and> fst (bbapi_ioctl K fw w cmd arg)
                = (if uint (s OR BIOSAPIERR_OFFSET K) \<le> 2147483648
                   then - uint (s OR BIOSAPIERR_OFFSET K)
                   else 4294967296 - uint (s OR BIOSAPIERR_OFFSET K))
            \<and> entry (g_bbapi (snd (bbapi_ioctl K fw w cmd arg))) = entry (g_bbapi w)
            \<and> memory (g_bbapi (snd (bbapi_ioctl K fw w cmd arg))) = memory (g_bbapi w)
            \<and> memory_bytes (g_bbapi (snd (bbapi_ioctl K fw w cmd arg))) = memory_bytes (g_bbapi w)
            \<and> Some (in_buf (g_bbapi (snd (bbapi_ioctl K fw w cmd arg)))) = fw_in b
            \<and> out_buf (g_bbapi (snd (bbapi_ioctl K fw w cmd arg)))
                = overwrite (out_buf (g_bbapi w)) (fr_out (fst (fw (fw_state w) b))))"
proof (intro conjI impI)
  assume h: "fw_calls (snd (snd (snd (bbapi_rw K fw w grp offs inp size_in outp size_out bw)))) = fw_calls w @ [a]
          \<and> fr_status (fst (fw (fw_state w) a)) = s"
  from rw_failed_call [OF conjunct1 [OF h] conjunct2 [OF h] assms]
  show "fst (bbapi_rw K fw w grp offs inp size_in outp size_out bw) = - (s OR BIOSAPIERR_OFFSET K)"
    and "g_bbapi (snd (snd (snd (bbapi_rw K fw w grp offs inp size_in outp size_out bw)))) = g_bbapi w"
    by simp_all
next
  assume h: "fw_calls (snd (bbapi_ioctl K fw w cmd arg)) = fw_calls w @ [b]
          \<and> fr_status (fst (fw (fw_state w) b)) = s"
  obtain r f' where r: "fw (fw_state w) b = (r, f')" by (cases "fw (fw_state w) b")
  with h assms have st: "fr_status r = s" "fr_status r \<noteq> 0" by simp_all
  from ioctl_failed_call [OF conjunct1 [OF h] r st(2)] obtain staged where
    res: "bbapi_ioctl K fw w cmd arg =
     (sint (- (fr_status r OR BIOSAPIERR_OFFSET K)),
      w\<lparr>g_bbapi := (g_bbapi w)\<lparr>in_buf := staged, out_buf := overwrite (out_buf (g_bbapi w)) (fr_out r)\<rparr>,
        fw_state := f', fw_calls := fw_calls w @ [b]\<rparr>)" and inb: "fw_in b = Some staged" by blast
  have nz: "s OR BIOSAPIERR_OFFSET K \<noteq> 0" using assms by (simp add: or_eq_0_iff)
  show "fst (bbapi_ioctl K fw w cmd arg) = sint (- (s OR BIOSAPIERR_OFFSET K))"
    by (simp add: res st)
  then show "fst (bbapi_ioctl K fw w cmd arg)
                = (if uint (s OR BIOSAPIERR_OFFSET K) \<le> 2147483648
                   then - uint (s OR BIOSAPIERR_OFFSET K)
                   else 4294967296 - uint (s OR BIOSAPIERR_OFFSET K))"
    by (simp only: sint_neg_u32 [OF nz])
  show "entry (g_bbapi (snd (bbapi_ioctl K fw w cmd arg))) = entry (g_bbapi w)"
    and "memory (g_bbapi (snd (bbapi_ioctl K fw w cmd arg))) = memory (g_bbapi w)"
    and "memory_bytes (g_bbapi (snd (bbapi_ioctl K fw w cmd arg))) = memory_bytes (g_bbapi w)"
    and "Some (in_buf (g_bbapi (snd (bbapi_ioctl K fw w cmd arg)))) = fw_in b"
    and "out_buf (g_bbapi (snd (bbapi_ioctl K fw w cmd arg)))
                = overwrite (out_buf (g_bbapi w)) (fr_out (fst (fw (fw_state w) b)))"
    by (simp_all add: res inb r)
qed

theorem firmware_error_translated_witness:
  "(2 :: u32) \<noteq> 0
   \<and> fw_calls (snd (snd (snd (bbapi_rw sample_consts (sample_fw 2 [] 0)
         (sample_world (request 0 0x10 0x1000 1 0 0 0 0)) 0 0x10 None 0 (Some [0, 0]) 2 0))))
       = fw_calls (sample_world (request 0 0x10 0x1000 1 0 0 0 0))
         @ [\<lparr>fw_group = 0, fw_offset = 0x10, fw_in = None, fw_in_size = 0,
             fw_out = Some [0, 0], fw_out_size = 2\<rparr>]
   \<and> fst (bbapi_rw sample_consts (sample_fw 2 [] 0)
         (sample_world (request 0 0x10 0x1000 1 0 0 0 0)) 0 0x10 None 0 (Some [0, 0]) 2 0)
       = - 0x20000002
   \<and> g_bbapi (snd (snd (snd (bbapi_rw sample_consts (sample_fw 2 [] 0)
         (sample_world (request 0 0x10 0x1000 1 0 0 0 0)) 0 0x10 None 0 (Some [0, 0]) 2 0))))
       = sample_object
   \<and> fw_calls (snd (bbapi_ioctl sample_consts (sample_fw 2 [] 0)
         (sample_world (request 0 0x10 0x1000 1 0 0 0 0)) 0x5000 0x800))
       = fw_calls (sample_world (request 0 0x10 0x1000 1 0 0 0 0))
         @ [\<lparr>fw_group = 0, fw_offset = 0x10, fw_in = Some (0xAA # replicate 4095 0), fw_in_size = 1,
             fw_out = Some (replicate 4096 0), fw_out_size = 0\<rparr>]
   \<and> fst (bbapi_ioctl sample_consts (sample_fw 2 [] 0)
         (sample_world (request 0 0x10 0x1000 1 0 0 0 0)) 0x5000 0x800) = - 0x20000002
   \<and> entry (g_bbapi (snd (bbapi_ioctl sample_consts (sample_fw 2 [] 0)
         (sample_world (request 0 0x10 0x1000 1 0 0 0 0)) 0x5000 0x800))) = 0x102000
   \<and> in_buf (g_bbapi (snd (bbapi_ioctl sample_consts (sample_fw 2 [] 0)
         (sample_world (request 0 0x10 0x1000 1 0 0 0 0)) 0x5000 0x800))) = 0xAA # replicate 4095 0"
proof -
  let ?w = "sample_world (request 0 0x10 0x1000 1 0 0 0 0)"
  let ?fw = "sample_fw 2 [] 0"
  let ?a = "\<lparr>fw_group = 0, fw_offset = 0x10, fw_in = None, fw_in_size = 0,
             fw_out = Some [0, 0], fw_out_size = 2\<rparr>"
  let ?b = "\<lparr>fw_group = 0, fw_offset = 0x10, fw_in = Some (0xAA # replicate 4095 0), fw_in_size = 1,
             fw_out = Some (replicate 4096 0), fw_out_size = 0\<rparr>"
  have s: "(2 :: u32) \<noteq> 0" by simp
  have ha: "fw_calls (snd (snd (snd (bbapi_rw sample_consts ?fw ?w 0 0x10 None 0 (Some [0, 0]) 2 0))))
      = fw_calls ?w @ [?a]"
    by (simp add: sample_defs driver_defs)
  have hb: "fw_calls (snd (bbapi_ioctl sample_consts ?fw ?w 0x5000 0x800)) = fw_calls ?w @ [?b]"
    by (simp add: sample_defs driver_defs)
  have st: "fr_status (fst (?fw (fw_state ?w) ?a)) = 2" "fr_status (fst (?fw (fw_state ?w) ?b)) = 2"
    by (simp_all add: sample_fw_def)
  have v: "- (2 OR BIOSAPIERR_OFFSET sample_consts) = (- 0x20000002 :: u32)"
    "sint (- (2 OR BIOSAPIERR_OFFSET sample_consts)) = - 0x20000002"
    by (simp_all add: sample_consts_def)
  have g: "g_bbapi ?w = sample_object" "entry sample_object = 0x102000"
    by (simp_all add: sample_world_def sample_object_def)
  from firmware_error_translated [OF s, where K = sample_consts and fw = ?fw and w = ?w
      and grp = 0 and offs = "0x10" and inp = None and size_in = 0 and outp = "Some [0, 0]"
      and size_out = 2 and bw = 0 and a = ?a and cmd = "0x5000" and arg = "0x800" and b = ?b]
  show ?thesis
    using s ha hb st by (simp only: v g) simp
qed

text \<open>
  C5 as stated fails on the external path. With firmware status 2 the gate returns
  \<open>-(2 | BIOSAPIERR_OFFSET)\<close>, but the global \<open>g_bbapi\<close> is not as before: its input
  scratch array now starts with the caller's byte \<open>0xAA\<close>. With firmware status
  \<open>0xFFFFFFFF\<close> the value returned is \<open>1\<close>, which is not negative.
\<close>

theorem firmware_error_counterexample:
  "fst (bbapi_ioctl sample_consts (sample_fw 2 [] 0)
         (sample_world (request 0 0x10 0x1000 1 0 0 0 0)) 0x5000 0x800)
     = sint (- (2 OR BIOSAPIERR_OFFSET sample_consts))
   \<and> in_buf (g_bbapi (sample_world (request 0 0x10 0x1000 1 0 0 0 0))) ! 0 = 0
   \<and> in_buf (g_bbapi (snd (bbapi_ioctl sample_consts (sample_fw 2 [] 0)
         (sample_world (request 0 0x10 0x1000 1 0 0 0 0)) 0x5000 0x800))) ! 0 = 0xAA
   \<and> g_bbapi (snd (bbapi_ioctl sample_consts (sample_fw 2 [] 0)
         (sample_world (request 0 0x10 0x1000 1 0 0 0 0)) 0x5000 0x800))
       \<noteq> g_bbapi (sample_world (request 0 0x10 0x1000 1 0 0 0 0))
   \<and> fst (bbapi_ioctl sample_consts (sample_fw 0xFFFFFFFF [] 0)
         (sample_world (request 0 0x10 0x1000 1 0 0 0 0)) 0x5000 0x800) = 1"
proof -
  let ?w = "sample_world (request 0 0x10 0x1000 1 0 0 0 0)"
  have a: "bbapi_ioctl sample_consts (sample_fw 2 [] 0) ?w 0x5000 0x800
      = (- 0x20000002, ?w\<lparr>g_bbapi := sample_object\<lparr>in_buf := 0xAA # replicate 4095 0\<rparr>,
            fw_state := 1,
            fw_calls := [\<lparr>fw_group = 0, fw_offset = 0x10, fw_in = Some (0xAA # replicate 4095 0),
              fw_in_size = 1, fw_out = Some (replicate 4096 0), fw_out_size = 0\<rparr>]\<rparr>)"
    by (simp add: sample_defs driver_defs)
  have b: "fst (bbapi_ioctl sample_consts (sample_fw 0xFFFFFFFF [] 0) ?w 0x5000 0x800) = 1"
    by (simp add: sample_defs driver_defs)
  have c: "in_buf (g_bbapi ?w) ! 0 = 0" by (simp add: sample_defs)
  have d: "sample_object\<lparr>in_buf := 0xAA # replicate 4095 0\<rparr> \<noteq> g_bbapi ?w"
  proof
    assume "sample_object\<lparr>in_buf := 0xAA # replicate 4095 0\<rparr> = g_bbapi ?w"
    then have "in_buf (sample_object\<lparr>in_buf := 0xAA # replicate 4095 0\<rparr>) ! 0 = in_buf (g_bbapi ?w) ! 0"
      by simp
    then show False by (simp add: c)
  qed
  show ?thesis by (simp add: a b c d) (simp add: sample_consts_def)
qed

subsection \<open>C6: the shadow copy\<close>

text \<open>
  C6. The scenario of the claim holds (\<open>copy_bios_spec_example\<close>), and so does the
  claim for every length field up to \<open>0xFFFFEFFF\<close> (\<open>copy_bios_success\<close>). But the
  sum \<open>offset + 4096\<close> is computed in 32 bits: for a length field of \<open>0xFFFFFFFF\<close>
  the driver allocates and copies 4095 bytes, not \<open>0xFFFFFFFF + 4096\<close>, reports success,
  and sets the entry pointer \<open>0xFFFFFFFF\<close> bytes past the start of that 4095-byte buffer.
\<close>

theorem copy_bios_size_wraps:
  "ioread32 (io_bytes (sample_platform (marker_io 0xFFFFFFFF))) (37 + 8) = 0xFFFFFFFF
   \<and> fst (bbapi_copy_bios (sample_platform (marker_io 0xFFFFFFFF)) blank_object 37) = 0
   \<and> length (memory_bytes (snd (bbapi_copy_bios (sample_platform (marker_io 0xFFFFFFFF)) blank_object 37)))
       = 4095
   \<and> memory (snd (bbapi_copy_bios (sample_platform (marker_io 0xFFFFFFFF)) blank_object 37)) = 0x100000
   \<and> entry (snd (bbapi_copy_bios (sample_platform (marker_io 0xFFFFFFFF)) blank_object 37))
       = 0x100000 + 0xFFFFFFFF"
proof -
  have f: "ioread32 (marker_io 0xFFFFFFFF) 45 = 0xFFFFFFFF"
    by (simp add: ioread32_def marker_io_def le_bytes32_def)
  show ?thesis
    by (simp add: f bbapi_copy_bios_def sample_platform_def blank_object_def Let_def)
qed

subsection \<open>C7: the signature scan\<close>

text \<open>
  C7, as amended. The scan visits the positions \<open>off + 16 * k\<close> phase by phase
  (\<open>off\<close> from 0 to 15) and, within a phase, in strides of 16, as long as
  \<open>pos + 16\<close> does not exceed the window size: these are all positions \<open>p\<close> with
  \<open>p + 16\<close> inside the window. At each position it compares the 64-bit value of two
  little-endian 32-bit reads with the signature, and it stops at the first match. A
  signature at such a position (so at offset 37 in a window of at least 53 bytes) is
  therefore found: the scan yields a matching position and \<open>bbapi_find_bios\<close> hands it to
  \<open>bbapi_copy_bios\<close>. When the window holds no signature, all 16 phases are exhausted and
  \<open>bbapi_find_bios\<close> returns \<open>-EFAULT\<close> without touching the bridge object.
\<close>

theorem signature_scan:
  assumes "area \<le> BBIOSAPI_SIGNATURE_SEARCH_AREA K" and "\<not> ioremap_null P area"
  shows "scan_phases (BBIOSAPI_SIGNATURE (build_target K)) (io_bytes P) area 0
           = List.find (\<lambda>p. BBIOSAPI_SIGNATURE (build_target K) = lword_at (io_bytes P) p) (scan_order area)
       \<and> set (scan_order area) = {p. p + 16 \<le> area}
       \<and> (p + 16 \<le> area \<and> lword_at (io_bytes P) p = BBIOSAPI_SIGNATURE (build_target K)
            \<longrightarrow> (\<exists>q. scan_phases (BBIOSAPI_SIGNATURE (build_target K)) (io_bytes P) area 0 = Some q
                    \<and> lword_at (io_bytes P) q = BBIOSAPI_SIGNATURE (build_target K)
                    \<and> q + 16 \<le> area
                    \<and> bbapi_find_bios K P bbapi area = bbapi_copy_bios P bbapi q))
       \<and> ((\<forall>p. p + 8 \<le> area \<longrightarrow> lword_at (io_bytes P) p \<noteq> BBIOSAPI_SIGNATURE (build_target K))
            \<longrightarrow> bbapi_find_bios K P bbapi area = (- EFAULT, bbapi))"
proof (intro conjI impI)
  let ?S = "BBIOSAPI_SIGNATURE (build_target K)"
  show "scan_phases ?S (io_bytes P) area 0
           = List.find (\<lambda>p. ?S = lword_at (io_bytes P) p) (scan_order area)"
    by (rule scan_phases_order)
  show "set (scan_order area) = {p. p + 16 \<le> area}"
    by (simp add: set_scan_order STEP_SIZE_def)
  {
    assume h: "p + 16 \<le> area \<and> lword_at (io_bytes P) p = ?S"
    then have "p + STEP_SIZE \<le> area" "?S = lword_at (io_bytes P) p" by (simp_all add: STEP_SIZE_def)
    from scan_finds [OF this] obtain q where q: "scan_phases ?S (io_bytes P) area 0 = Some q"
      "?S = lword_at (io_bytes P) q" "q + STEP_SIZE \<le> area" by blast
    have "bbapi_find_bios K P bbapi area = bbapi_copy_bios P bbapi q"
      using assms q(1) by (simp add: bbapi_find_bios_def)
    with q show "\<exists>q. scan_phases ?S (io_bytes P) area 0 = Some q
                    \<and> lword_at (io_bytes P) q = ?S \<and> q + 16 \<le> area
                    \<and> bbapi_find_bios K P bbapi area = bbapi_copy_bios P bbapi q"
      by (auto simp add: STEP_SIZE_def)
  }
  {
    assume h: "\<forall>p. p + 8 \<le> area \<longrightarrow> lword_at (io_bytes P) p \<noteq> ?S"
    have "\<forall>p. p + STEP_SIZE \<le> area \<longrightarrow> ?S \<noteq> lword_at (io_bytes P) p"
    proof (intro allI impI)
      fix p
      assume "p + STEP_SIZE \<le> area"
      then have "p + 8 \<le> area" by (simp add: STEP_SIZE_def)
      with h have "lword_at (io_bytes P) p \<noteq> ?S" by blast
      then show "?S \<noteq> lword_at (io_bytes P) p" by (rule not_sym)
    qed
    from scan_misses [OF this] assms
    show "bbapi_find_bios K P bbapi area = (- EFAULT, bbapi)"
      by (simp add: bbapi_find_bios_def)
  }
qed

theorem signature_scan_witness:
  "64 \<le> BBIOSAPI_SIGNATURE_SEARCH_AREA sample_consts
   \<and> \<not> ioremap_null (sample_platform (marker_io 0x2000)) 64
   \<and> 37 + 16 \<le> (64 :: nat)
   \<and> lword_at (io_bytes (sample_platform (marker_io 0x2000))) 37
       = BBIOSAPI_SIGNATURE (build_target sample_consts)
   \<and> scan_phases (BBIOSAPI_SIGNATURE (build_target sample_consts))
         (io_bytes (sample_platform (marker_io 0x2000))) 64 0 = Some 37
   \<and> bbapi_find_bios sample_consts (sample_platform (marker_io 0x2000)) blank_object 64
       = bbapi_copy_bios (sample_platform (marker_io 0x2000)) blank_object 37
   \<and> (\<forall>p. lword_at (io_bytes (sample_platform (\<lambda>i. 0))) p
             \<noteq> BBIOSAPI_SIGNATURE (build_target sample_consts))
   \<and> bbapi_find_bios sample_consts (sample_platform (\<lambda>i. 0)) blank_object 64 = (- 14, blank_object)"
proof -
  let ?S = "BBIOSAPI_SIGNATURE (build_target sample_consts)"
  let ?P = "sample_platform (marker_io 0x2000)"
  let ?Z = "sample_platform (\<lambda>i. 0)"
  have a: "64 \<le> BBIOSAPI_SIGNATURE_SEARCH_AREA sample_consts" by (simp add: sample_consts_def)
  have m: "\<not> ioremap_null ?P 64" "\<not> ioremap_null ?Z 64" by (simp_all add: sample_platform_def)
  have sig: "lword_at (io_bytes ?P) 37 = ?S"
    by (simp add: sample_platform_def sample_consts_def BBIOSAPI_SIGNATURE_def lword_at_def
        ioread32_def marker_io_def le_bytes32_def)
  have zero: "\<forall>p. lword_at (io_bytes ?Z) p \<noteq> ?S"
    by (simp add: sample_platform_def sample_consts_def BBIOSAPI_SIGNATURE_def lword_at_def
        ioread32_def)
  have first: "scan_phases ?S (io_bytes ?P) 64 0 = Some 37"
    by (simp add: scan_phases.simps scan_stride.simps STEP_SIZE_def sample_platform_def
        sample_consts_def BBIOSAPI_SIGNATURE_def lword_at_def ioread32_def marker_io_def
        le_bytes32_def)
  from signature_scan [OF a m(1), where p = 37 and bbapi = blank_object] sig first
  have found: "bbapi_find_bios sample_consts ?P blank_object 64 = bbapi_copy_bios ?P blank_object 37"
    by auto
  from signature_scan [OF a m(2), where p = 0 and bbapi = blank_object] zero
  have none: "bbapi_find_bios sample_consts ?Z blank_object 64 = (- 14, blank_object)"
    by (simp add: EFAULT_def)
  show ?thesis using a m(1) sig first found zero none by simp
qed

text \<open>
  C7 as stated fails: a window of 52 bytes contains the signature at byte offset 37 (and the
  length field after it), but the loop stops at \<open>end - 16\<close>, position 37 is never read,
  and \<open>bbapi_find_bios\<close> returns \<open>-EFAULT\<close>.
\<close>

theorem signature_scan_counterexample:
  "lword_at (io_bytes (sample_platform (marker_io 0x2000))) 37
       = BBIOSAPI_SIGNATURE (build_target sample_consts)
   \<and> 37 + 8 + 4 \<le> (52 :: nat)
   \<and> 52 \<le> BBIOSAPI_SIGNATURE_SEARCH_AREA sample_consts
   \<and> \<not> ioremap_null (sample_platform (marker_io 0x2000)) 52
   \<and> bbapi_find_bios sample_consts (sample_platform (marker_io 0x2000)) blank_object 52
       = (- EFAULT, blank_object)"
proof -
  let ?S = "BBIOSAPI_SIGNATURE (build_target sample_consts)"
  let ?P = "sample_platform (marker_io 0x2000)"
  have sig: "lword_at (io_bytes ?P) 37 = ?S"
    by (simp add: sample_platform_def sample_consts_def BBIOSAPI_SIGNATURE_def lword_at_def
        ioread32_def marker_io_def le_bytes32_def)
  have none: "scan_phases ?S (io_bytes ?P) 52 0 = None"
    by (simp add: scan_phases.simps scan_stride.simps STEP_SIZE_def sample_platform_def
        sample_consts_def BBIOSAPI_SIGNATURE_def lword_at_def ioread32_def marker_io_def
        le_bytes32_def)
  show ?thesis
    by (simp add: sig none bbapi_find_bios_def) (simp add: sample_consts_def sample_platform_def)
qed

subsection \<open>C8: the capability probe\<close>

text \<open>
  C8, as amended. The capability probe is one zero-length read with both buffers
  \<open>NULL\<close>. On a bridge with an entry point it reports support exactly when the status
  \<open>s\<close> of that call is not zero and \<open>s | BIOSAPIERR_OFFSET\<close> is
  \<open>BIOSAPI_INVALIDSIZE\<close> or \<open>BIOSAPI_INVALIDPARM\<close> (a zero status is compared as 0).
  Every other status gives \<open>false\<close>. Only where the firmware's status carries the offset
  already (always so in a legacy build, whose offset is zero) is it the status as the
  firmware returned it that is compared with the two constants.
\<close>

theorem probe_reports_support:
  assumes "entry (g_bbapi w) \<noteq> 0"
  shows "let st = fr_status (fst (fw (fw_state w) (probe_args grp offs)));
             code = (if st = 0 then 0 else st OR BIOSAPIERR_OFFSET K)
         in fst (bbapi_supports K fw w grp offs)
              = (code = BIOSAPI_INVALIDSIZE K \<or> code = BIOSAPI_INVALIDPARM K)
          \<and> (st OR BIOSAPIERR_OFFSET K = st
               \<longrightarrow> fst (bbapi_supports K fw w grp offs)
                     = (st = BIOSAPI_INVALIDSIZE K \<or> st = BIOSAPI_INVALIDPARM K))
          \<and> fw_calls (snd (bbapi_supports K fw w grp offs)) = fw_calls w @ [probe_args grp offs]"
  using assms
  by (auto simp add: bbapi_supports_def bbapi_read_def bbapi_rw_def bbapi_call_def probe_args_def
      Let_def split: prod.splits)

theorem probe_reports_support_witness:
  "entry (g_bbapi (sample_world (request 0 0 0 0 0 0 0 0))) \<noteq> 0
   \<and> fr_status (fst (sample_fw 2 [] 0 0 (probe_args 9 0x20))) OR BIOSAPIERR_OFFSET sample_consts
       = BIOSAPI_INVALIDSIZE sample_consts
   \<and> fst (bbapi_supports sample_consts (sample_fw 2 [] 0) (sample_world (request 0 0 0 0 0 0 0 0)) 9 0x20)
   \<and> fr_status (fst (sample_fw 3 [] 0 0 (probe_args 9 0x20))) OR BIOSAPIERR_OFFSET sample_consts
       = BIOSAPI_INVALIDPARM sample_consts
   \<and> fst (bbapi_supports sample_consts (sample_fw 3 [] 0) (sample_world (request 0 0 0 0 0 0 0 0)) 9 0x20)
   \<and> fr_status (fst (sample_fw 0x20000003 [] 0 0 (probe_args 9 0x20))) OR BIOSAPIERR_OFFSET sample_consts
       = fr_status (fst (sample_fw 0x20000003 [] 0 0 (probe_args 9 0x20)))
   \<and> fst (bbapi_supports sample_consts (sample_fw 0x20000003 [] 0)
           (sample_world (request 0 0 0 0 0 0 0 0)) 9 0x20)
   \<and> \<not> fst (bbapi_supports sample_consts (sample_fw 1 [] 0) (sample_world (request 0 0 0 0 0 0 0 0)) 9 0x20)
   \<and> \<not> fst (bbapi_supports sample_consts (sample_fw 0 [] 0) (sample_world (request 0 0 0 0 0 0 0 0)) 9 0x20)"
proof -
  let ?w = "sample_world (request 0 0 0 0 0 0 0 0)"
  have h: "entry (g_bbapi ?w) \<noteq> 0" by (simp add: sample_defs)
  have st: "fw_state ?w = 0" by (simp add: sample_defs)
  show ?thesis
    using h
      probe_reports_support [OF h, of "sample_fw 2 [] 0" 9 "0x20" sample_consts]
      probe_reports_support [OF h, of "sample_fw 3 [] 0" 9 "0x20" sample_consts]
      probe_reports_support [OF h, of "sample_fw 0x20000003 [] 0" 9 "0x20" sample_consts]
      probe_reports_support [OF h, of "sample_fw 1 [] 0" 9 "0x20" sample_consts]
      probe_reports_support [OF h, of "sample_fw 0 [] 0" 9 "0x20" sample_consts]
    by (simp add: Let_def st sample_fw_def sample_consts_def)
qed

text \<open>
  C8 as stated fails in a build whose offset is not zero. Where the two constants contain
  the offset, the firmware status 2 is neither of them, yet the probe reports support.
  Where they do not contain it, the firmware status 2 is \<open>BIOSAPI_INVALIDSIZE\<close>, yet the
  probe reports no support.
\<close>

theorem probe_reports_support_counterexample:
  "entry (g_bbapi (sample_world (request 0 0 0 0 0 0 0 0))) \<noteq> 0
   \<and> fr_status (fst (sample_fw 2 [] 0 (fw_state (sample_world (request 0 0 0 0 0 0 0 0)))
                        (probe_args 9 0x20))) = 2
   \<and> BIOSAPIERR_OFFSET sample_consts \<noteq> 0
   \<and> 2 \<noteq> BIOSAPI_INVALIDSIZE sample_consts
   \<and> 2 \<noteq> BIOSAPI_INVALIDPARM sample_consts
   \<and> fst (bbapi_supports sample_consts (sample_fw 2 [] 0) (sample_world (request 0 0 0 0 0 0 0 0)) 9 0x20)
   \<and> fst (bbapi_supports sample_consts (sample_fw 0x20000002 [] 0) (sample_world (request 0 0 0 0 0 0 0 0)) 9 0x20)
   \<and> BIOSAPIERR_OFFSET raw_consts \<noteq> 0
   \<and> 2 = BIOSAPI_INVALIDSIZE raw_consts
   \<and> \<not> fst (bbapi_supports raw_consts (sample_fw 2 [] 0) (sample_world (request 0 0 0 0 0 0 0 0)) 9 0x20)"
  by (simp add: sample_defs driver_defs)

subsection \<open>C9: nothing is written back after a firmware error\<close>

text \<open>
  C9, as amended. On the external path, when the firmware has been entered and has returned
  a status \<open>s\<close> that is not zero, user memory is exactly as before the request (neither
  the output buffer nor the destination of \<open>pBytesReturned\<close> is written), and the only
  thing the caller gets is the translated code: the 32-bit two's-complement negation of
  \<open>s | BIOSAPIERR_OFFSET\<close> converted to \<open>int\<close>. That code is negative, and then equal
  to \<open>-(s | BIOSAPIERR_OFFSET)\<close>, exactly when \<open>s | BIOSAPIERR_OFFSET\<close> is at most
  \<open>2^31\<close>.
\<close>

theorem failed_call_writes_nothing_back:
  assumes "fw_calls (snd (bbapi_ioctl K fw w cmd arg)) = fw_calls w @ [a]"
    and "fr_status (fst (fw (fw_state w) a)) \<noteq> 0"
  shows "umem (snd (bbapi_ioctl K fw w cmd arg)) = umem w
       \<and> udesc (snd (bbapi_ioctl K fw w cmd arg)) = udesc w
       \<and> fst (bbapi_ioctl K fw w cmd arg)
           = sint (- (fr_status (fst (fw (fw_state w) a)) OR BIOSAPIERR_OFFSET K))
       \<and> fst (bbapi_ioctl K fw w cmd arg)
           = (if uint (fr_status (fst (fw (fw_state w) a)) OR BIOSAPIERR_OFFSET K) \<le> 2147483648
              then - uint (fr_status (fst (fw (fw_state w) a)) OR BIOSAPIERR_OFFSET K)
              else 4294967296 - uint (fr_status (fst (fw (fw_state w) a)) OR BIOSAPIERR_OFFSET K))
       \<and> (fst (bbapi_ioctl K fw w cmd arg) < 0)
           = (uint (fr_status (fst (fw (fw_state w) a)) OR BIOSAPIERR_OFFSET K) \<le> 2147483648)"
proof -
  let ?y = "fr_status (fst (fw (fw_state w) a)) OR BIOSAPIERR_OFFSET K"
  obtain r f' where r: "fw (fw_state w) a = (r, f')" by (cases "fw (fw_state w) a")
  with assms(2) have "fr_status r \<noteq> 0" by simp
  from ioctl_failed_call [OF assms(1) r this] r
  have base: "umem (snd (bbapi_ioctl K fw w cmd arg)) = umem w"
    "udesc (snd (bbapi_ioctl K fw w cmd arg)) = udesc w"
    "fst (bbapi_ioctl K fw w cmd arg) = sint (- ?y)"
    by auto
  have nz: "?y \<noteq> 0" using assms(2) by (simp add: or_eq_0_iff)
  then have "uint ?y \<noteq> 0" by (simp add: uint_0_iff)
  then have pos: "0 < uint ?y" using uint_ge_0 [of ?y] by linarith
  have lt: "uint ?y < 4294967296" using uint_lt2p [of ?y] by simp
  have val: "sint (- ?y) = (if uint ?y \<le> 2147483648 then - uint ?y else 4294967296 - uint ?y)"
    by (rule sint_neg_u32 [OF nz])
  have sgn: "(sint (- ?y) < 0) = (uint ?y \<le> 2147483648)"
    using pos lt by (simp add: val)
  show ?thesis using base val sgn by simp
qed

theorem failed_call_writes_nothing_back_witness:
  "fw_calls (snd (bbapi_ioctl sample_consts (sample_fw 2 [7, 7] 2)
        (sample_world (request 0 0x10 0x1000 1 0x1100 2 0x1200 0)) 0x5000 0x800))
     = fw_calls (sample_world (request 0 0x10 0x1000 1 0x1100 2 0x1200 0))
       @ [\<lparr>fw_group = 0, fw_offset = 0x10, fw_in = Some (0xAA # replicate 4095 0), fw_in_size = 1,
           fw_out = Some (replicate 4096 0), fw_out_size = 2\<rparr>]
   \<and> fr_status (fst (sample_fw 2 [7, 7] 2 (fw_state (sample_world (request 0 0x10 0x1000 1 0x1100 2 0x1200 0)))
        \<lparr>fw_group = 0, fw_offset = 0x10, fw_in = Some (0xAA # replicate 4095 0), fw_in_size = 1,
           fw_out = Some (replicate 4096 0), fw_out_size = 2\<rparr>)) \<noteq> 0
   \<and> umem (snd (bbapi_ioctl sample_consts (sample_fw 2 [7, 7] 2)
        (sample_world (request 0 0x10 0x1000 1 0x1100 2 0x1200 0)) 0x5000 0x800))
     = umem (sample_world (request 0 0x10 0x1000 1 0x1100 2 0x1200 0))
   \<and> fst (bbapi_ioctl sample_consts (sample_fw 2 [7, 7] 2)
        (sample_world (request 0 0x10 0x1000 1 0x1100 2 0x1200 0)) 0x5000 0x800) = - 0x20000002
   \<and> fst (bbapi_ioctl sample_consts (sample_fw 2 [7, 7] 2)
        (sample_world (request 0 0x10 0x1000 1 0x1100 2 0x1200 0)) 0x5000 0x800) < 0"
proof -
  let ?w = "sample_world (request 0 0x10 0x1000 1 0x1100 2 0x1200 0)"
  let ?a = "\<lparr>fw_group = 0, fw_offset = 0x10, fw_in = Some (0xAA # replicate 4095 0), fw_in_size = 1,
           fw_out = Some (replicate 4096 0), fw_out_size = 2\<rparr>"
  have h1: "fw_calls (snd (bbapi_ioctl sample_consts (sample_fw 2 [7, 7] 2) ?w 0x5000 0x800))
      = fw_calls ?w @ [?a]"
    by (simp add: sample_defs driver_defs)
  have h2: "fr_status (fst (sample_fw 2 [7, 7] 2 (fw_state ?w) ?a)) \<noteq> 0"
    by (simp add: sample_fw_def)
  have v: "sint (- (fr_status (fst (sample_fw 2 [7, 7] 2 (fw_state ?w) ?a)) OR BIOSAPIERR_OFFSET sample_consts))
      = - 0x20000002"
    by (simp add: sample_fw_def sample_consts_def)
  from failed_call_writes_nothing_back [OF h1 h2]
  have "umem (snd (bbapi_ioctl sample_consts (sample_fw 2 [7, 7] 2) ?w 0x5000 0x800)) = umem ?w"
    and "fst (bbapi_ioctl sample_consts (sample_fw 2 [7, 7] 2) ?w 0x5000 0x800) = - 0x20000002"
    by (simp_all only: v)
  with h1 h2 show ?thesis by simp
qed

text \<open>
  C9 as stated fails in what it says of the code the caller gets: with firmware status
  \<open>0x80000001\<close> the firmware is entered, user memory stays as it was, and the gate
  returns \<open>0x5FFFFFFF\<close>, which is not negative.
\<close>

theorem failed_call_code_counterexample:
  "length (fw_calls (snd (bbapi_ioctl sample_consts (sample_fw 0x80000001 [] 0)
        (sample_world (request 3 0x20 0x1000 2 0x1100 4 0x1200 0)) 0x5000 0x800))) = 1
   \<and> fr_status (fst (sample_fw 0x80000001 [] 0
        (fw_state (sample_world (request 3 0x20 0x1000 2 0x1100 4 0x1200 0)))
        (last (fw_calls (snd (bbapi_ioctl sample_consts (sample_fw 0x80000001 [] 0)
           (sample_world (request 3 0x20 0x1000 2 0x1100 4 0x1200 0)) 0x5000 0x800)))))) = 0x80000001
   \<and> umem (snd (bbapi_ioctl sample_consts (sample_fw 0x80000001 [] 0)
        (sample_world (request 3 0x20 0x1000 2 0x1100 4 0x1200 0)) 0x5000 0x800))
       = umem (sample_world (request 3 0x20 0x1000 2 0x1100 4 0x1200 0))
   \<and> fst (bbapi_ioctl sample_consts (sample_fw 0x80000001 [] 0)
        (sample_world (request 3 0x20 0x1000 2 0x1100 4 0x1200 0)) 0x5000 0x800) = 0x5FFFFFFF
   \<and> \<not> fst (bbapi_ioctl sample_consts (sample_fw 0x80000001 [] 0)
        (sample_world (request 3 0x20 0x1000 2 0x1100 4 0x1200 0)) 0x5000 0x800) < 0"
proof -
  let ?R = "bbapi_ioctl sample_consts (sample_fw 0x80000001 [] 0)
        (sample_world (request 3 0x20 0x1000 2 0x1100 4 0x1200 0)) 0x5000 0x800"
  have a: "length (fw_calls (snd ?R)) = 1" "fst ?R = 0x5FFFFFFF"
    "umem (snd ?R) = umem (sample_world (request 3 0x20 0x1000 2 0x1100 4 0x1200 0))"
    by (simp_all add: sample_defs driver_defs fetch_numeral)
  have b: "fr_status (fst (sample_fw 0x80000001 [] 0
        (fw_state (sample_world (request 3 0x20 0x1000 2 0x1100 4 0x1200 0)))
        (last (fw_calls (snd ?R))))) = 0x80000001"
    by (simp add: sample_fw_def)
  show ?thesis by (simp add: a b)
qed

subsection \<open>C10: the output copy\<close>

text \<open>
  C10, as amended. When an external request succeeds (the gate returns 0), the firmware's
  status was zero, and user memory afterwards is the memory before with exactly
  \<open>written\<close> bytes stored from \<open>pOutBuffer\<close> on, where \<open>written\<close> is the count the
  firmware stored through \<open>bytes_written\<close> (zero when it stored none): the bytes are
  those of the kernel from the start of the array \<open>out\<close> on. Neither the declared output
  size nor the size of \<open>out\<close> bounds the count. After that copy, when \<open>pBytesReturned\<close>
  is not \<open>NULL\<close>, the same count is handed to \<open>put_user\<close>; it is stored there, and
  reads back as that count, when the four bytes at \<open>pBytesReturned\<close> are mapped.
\<close>

theorem output_copy_uses_reported_count:
  assumes "bbapi_ioctl K fw w cmd arg = (0, w')" and "udesc w arg = Some d0"
  shows "let d = (if BBAPI_CMD_LEGACY K = Some cmd then d0\<lparr>pBytesReturned := 0, pMode := 0\<rparr> else d0);
             r = fst (fw (fw_state w) (ioctl_fw_args w d));
             written = written_after 0 r;
             copied = (\<lambda>x. if pOutBuffer d \<le> x \<and> x < pOutBuffer d + unat written
                            then Some (kernel_from_out (out_buf (g_bbapi w')) (after_out w') (unat written)
                                         ! (x - pOutBuffer d))
                            else umem w x)
         in fr_status r = 0
          \<and> fw_calls w' = fw_calls w @ [ioctl_fw_args w d]
          \<and> out_buf (g_bbapi w') = overwrite (out_buf (g_bbapi w)) (fr_out r)
          \<and> umem w' = (if pBytesReturned d \<noteq> 0 then put_user copied written (pBytesReturned d)
                       else copied)
          \<and> (pBytesReturned d \<noteq> 0 \<and> length (fetch copied (pBytesReturned d) 4) = 4
               \<longrightarrow> fetch (umem w') (pBytesReturned d) 4 = le_bytes32 written)"
proof -
  let ?d = "if BBAPI_CMD_LEGACY K = Some cmd then d0\<lparr>pBytesReturned := 0, pMode := 0\<rparr> else d0"
  let ?r = "fst (fw (fw_state w) (ioctl_fw_args w ?d))"
  let ?n = "written_after 0 ?r"
  have m: "bbapi_ioctl_mutexed K fw w ?d = (0, w')" by (rule ioctl_success [OF assms])
  from mutexed_success [OF m] obtain m' where st: "fr_status ?r = 0"
    and calls: "fw_calls w' = fw_calls w @ [ioctl_fw_args w ?d]"
    and ob: "out_buf (g_bbapi w') = overwrite (out_buf (g_bbapi w)) (fr_out ?r)"
    and ct: "copy_to_user (umem w) (pOutBuffer ?d)
               (kernel_from_out (out_buf (g_bbapi w')) (after_out w') (unat ?n)) = (m', 0)"
    and um: "umem w' = (if pBytesReturned ?d \<noteq> 0 then put_user m' ?n (pBytesReturned ?d) else m')"
    by blast
  have m': "m' = (\<lambda>x. if pOutBuffer ?d \<le> x \<and> x < pOutBuffer ?d + unat ?n
                       then Some (kernel_from_out (out_buf (g_bbapi w')) (after_out w') (unat ?n)
                                    ! (x - pOutBuffer ?d))
                       else umem w x)"
    using copy_to_user_done [OF ct] by (simp only: length_kernel_from_out)
  have pu: "pBytesReturned ?d \<noteq> 0 \<and> length (fetch m' (pBytesReturned ?d) 4) = 4
      \<longrightarrow> fetch (umem w') (pBytesReturned ?d) 4 = le_bytes32 ?n"
    using um by (auto simp add: put_user_stored simp del: fetch.simps)
  show ?thesis
    unfolding Let_def using st calls ob um pu unfolding m' by blast
qed

theorem output_copy_uses_reported_count_witness:
  "bbapi_ioctl sample_consts (sample_fw 0 [1, 2, 3] 3)
       (tiny_world (request 0 0x10 0x1000 1 0x1100 1 0x1200 0)) 0x5000 0x800
     = (0, snd (bbapi_ioctl sample_consts (sample_fw 0 [1, 2, 3] 3)
                  (tiny_world (request 0 0x10 0x1000 1 0x1100 1 0x1200 0)) 0x5000 0x800))
   \<and> udesc (tiny_world (request 0 0x10 0x1000 1 0x1100 1 0x1200 0)) 0x800
       = Some (request 0 0x10 0x1000 1 0x1100 1 0x1200 0)
   \<and> nOutBufferSize (request 0 0x10 0x1000 1 0x1100 1 0x1200 0) = 1
   \<and> length (out_buf (g_bbapi (tiny_world (request 0 0x10 0x1000 1 0x1100 1 0x1200 0)))) = 2
   \<and> written_after 0 (fst (sample_fw 0 [1, 2, 3] 3 0
         (ioctl_fw_args (tiny_world (request 0 0x10 0x1000 1 0x1100 1 0x1200 0))
            (request 0 0x10 0x1000 1 0x1100 1 0x1200 0)))) = 3
   \<and> umem (snd (bbapi_ioctl sample_consts (sample_fw 0 [1, 2, 3] 3)
                  (tiny_world (request 0 0x10 0x1000 1 0x1100 1 0x1200 0)) 0x5000 0x800)) 0x1100 = Some 1
   \<and> umem (snd (bbapi_ioctl sample_consts (sample_fw 0 [1, 2, 3] 3)
                  (tiny_world (request 0 0x10 0x1000 1 0x1100 1 0x1200 0)) 0x5000 0x800)) 0x1101 = Some 2
   \<and> umem (snd (bbapi_ioctl sample_consts (sample_fw 0 [1, 2, 3] 3)
                  (tiny_world (request 0 0x10 0x1000 1 0x1100 1 0x1200 0)) 0x5000 0x800)) 0x1102 = Some 0x5A
   \<and> umem (snd (bbapi_ioctl sample_consts (sample_fw 0 [1, 2, 3] 3)
                  (tiny_world (request 0 0x10 0x1000 1 0x1100 1 0x1200 0)) 0x5000 0x800)) 0x1103 = Some 0
   \<and> fetch (umem (snd (bbapi_ioctl sample_consts (sample_fw 0 [1, 2, 3] 3)
                  (tiny_world (request 0 0x10 0x1000 1 0x1100 1 0x1200 0)) 0x5000 0x800))) 0x1200 4
       = [3, 0, 0, 0]"
proof -
  let ?d = "request 0 0x10 0x1000 1 0x1100 1 0x1200 0"
  let ?w = "tiny_world ?d"
  let ?fw = "sample_fw 0 [1, 2, 3] 3"
  let ?R = "bbapi_ioctl sample_consts ?fw ?w 0x5000 0x800"
  have f: "fst ?R = 0" by (simp add: sample_defs driver_defs fetch_numeral upt_rec)
  have h1: "?R = (0, snd ?R)" using f by (cases ?R) simp
  have h2: "udesc ?w 0x800 = Some ?d" by (simp add: sample_defs)
  have ev: "umem (snd ?R) 0x1100 = Some 1" "umem (snd ?R) 0x1101 = Some 2"
    "umem (snd ?R) 0x1102 = Some 0x5A" "umem (snd ?R) 0x1103 = Some 0"
    "fetch (umem (snd ?R)) 0x1200 4 = [3, 0, 0, 0]"
    by (simp_all add: sample_defs driver_defs fetch_numeral upt_rec)
  have misc: "nOutBufferSize ?d = 1" "length (out_buf (g_bbapi ?w)) = 2"
    "written_after 0 (fst (?fw 0 (ioctl_fw_args ?w ?d))) = 3"
    by (simp_all add: sample_defs written_after_def)
  from output_copy_uses_reported_count [OF h1 h2]
  have "fr_status (fst (?fw (fw_state ?w) (ioctl_fw_args ?w ?d))) = 0"
    by (simp add: Let_def sample_consts_def)
  with h1 h2 ev misc show ?thesis by simp
qed

text \<open>
  C10 as stated fails in what it says of \<open>pBytesReturned\<close>: with a pointer that is not
  \<open>NULL\<close> but not mapped (\<open>0x3000\<close>), the firmware reports 3 bytes, the gate returns
  0, the three bytes reach the output buffer, and no count is stored: the four bytes at
  \<open>0x3000\<close> are as unreadable as before.
\<close>

theorem output_copy_counterexample:
  "pBytesReturned (request 0 0x10 0x1000 1 0x1100 1 0x3000 0) \<noteq> 0
   \<and> fst (bbapi_ioctl sample_consts (sample_fw 0 [1, 2, 3] 3)
          (tiny_world (request 0 0x10 0x1000 1 0x1100 1 0x3000 0)) 0x5000 0x800) = 0
   \<and> fetch (umem (snd (bbapi_ioctl sample_consts (sample_fw 0 [1, 2, 3] 3)
          (tiny_world (request 0 0x10 0x1000 1 0x1100 1 0x3000 0)) 0x5000 0x800))) 0x1100 3
       = [1, 2, 0x5A]
   \<and> umem (snd (bbapi_ioctl sample_consts (sample_fw 0 [1, 2, 3] 3)
          (tiny_world (request 0 0x10 0x1000 1 0x1100 1 0x3000 0)) 0x5000 0x800)) 0x3000 = None
   \<and> fetch (umem (snd (bbapi_ioctl sample_consts (sample_fw 0 [1, 2, 3] 3)
          (tiny_world (request 0 0x10 0x1000 1 0x1100 1 0x3000 0)) 0x5000 0x800))) 0x3000 4 = []
   \<and> le_bytes32 3 \<noteq> []"
  by (simp add: sample_defs driver_defs fetch_numeral upt_rec)

end
